theory Spec2Isabelle
  imports Complex_Main "HOL-Library.AList"
begin

section \<open>JavaScript values\<close>

text \<open>
  The values that \<^verbatim>\<open>request.json()\<close> and \<^verbatim>\<open>response.json()\<close> hand to the code, and
  \<^verbatim>\<open>undefined\<close> for a property that is not there. An object is the list of its own
  properties. Numbers are rationals: both zeros are \<open>0\<close>, and NaN (which no JSON text
  denotes) is left out.
\<close>

datatype jsval =
    JUndefined
  | JNull
  | JBool bool
  | JNum rat
  | JStr string
  | JArr "jsval list"
  | JObj "(string \<times> jsval) list"

text \<open>
  Errors thrown by the code or by the platform under it, as values: a \<^verbatim>\<open>fetch\<close> that is
  rejected, JSON text that does not parse, a property read on \<^verbatim>\<open>null\<close> or \<^verbatim>\<open>undefined\<close>,
  a rejected \<^verbatim>\<open>getConfig()\<close>, and the errors the client makes itself, with the status
  they carry in their message (lines 60, 65, 149 and 167, 188, 234 of the client, line 75
  of the handler).
\<close>

datatype error =
    NetworkError
  | SyntaxError
  | TypeError
  | ExternalError
  | LoginStatus int
  | LoginNoToken
  | ApiStatus int
  | UploadStatus int string
  | DeleteStatus int
  | DownloadStatus int

text \<open>\<^verbatim>\<open>!v\<close> is \<open>\<not> truthy v\<close>.\<close>

fun truthy :: "jsval \<Rightarrow> bool" where
  "truthy JUndefined = False"
| "truthy JNull = False"
| "truthy (JBool b) = b"
| "truthy (JNum n) = (n \<noteq> 0)"
| "truthy (JStr s) = (s \<noteq> [])"
| "truthy (JArr xs) = True"
| "truthy (JObj ps) = True"

text \<open>
  \<^verbatim>\<open>v.k\<close>: a TypeError on \<^verbatim>\<open>null\<close> and \<^verbatim>\<open>undefined\<close>, the own property of an object,
  \<^verbatim>\<open>undefined\<close> otherwise (none of the names the code reads is a built-in property of
  a string, a number, a boolean or an array).
\<close>

fun get_prop :: "jsval \<Rightarrow> string \<Rightarrow> error + jsval" where
  "get_prop JUndefined k = Inl TypeError"
| "get_prop JNull k = Inl TypeError"
| "get_prop (JObj ps) k = Inr (case map_of ps k of None \<Rightarrow> JUndefined | Some v \<Rightarrow> v)"
| "get_prop v k = Inr JUndefined"

text \<open>\<^verbatim>\<open>v?.k\<close>\<close>

definition get_prop_opt :: "jsval \<Rightarrow> string \<Rightarrow> jsval" where
  "get_prop_opt v k = (case get_prop v k of Inl e \<Rightarrow> JUndefined | Inr x \<Rightarrow> x)"

text \<open>\<^verbatim>\<open>a || b\<close>\<close>

definition or_else :: "jsval \<Rightarrow> jsval \<Rightarrow> jsval" where
  "or_else a b = (if truthy a then a else b)"

text \<open>An optional string field (\<^verbatim>\<open>username?: string\<close>) is truthy when present and non-empty.\<close>

definition truthy_str :: "string option \<Rightarrow> bool" where
  "truthy_str s = (case s of None \<Rightarrow> False | Some x \<Rightarrow> x \<noteq> [])"

text \<open>
  Modelled from the spec: the type \<^verbatim>\<open>MetaInfo\<close> of the module \<^verbatim>\<open>openlist-cache\<close>, which
  is not among the sources. The Metadata Document is a single object with the root
  attribute \<^verbatim>\<open>folders\<close>, a mapping from folder name to Folder Entry (keys unique,
  insertion order irrelevant). An entry is kept as the JavaScript object it is. The
  mapping holds the own properties of the \<^verbatim>\<open>folders\<close> object, which are what
  \<^verbatim>\<open>JSON.stringify\<close> writes.
\<close>

record metaInfo =
  folders :: "string \<rightharpoonup> jsval"

text \<open>
  What the \<^verbatim>\<open>JSON.parse\<close> of line 79 of the handler can return: a falsy value
  (\<^verbatim>\<open>null\<close>, \<^verbatim>\<open>false\<close>, \<open>0\<close>, the empty string); a document; or another truthy value,
  one whose \<^verbatim>\<open>folders\<close> is \<^verbatim>\<open>undefined\<close>, \<^verbatim>\<open>null\<close> or a primitive, such as \<^verbatim>\<open>{}\<close>, on
  which the assignment of line 98 throws a TypeError. (A value whose \<^verbatim>\<open>folders\<close> is an
  array is the one shape left out.)
\<close>

datatype parsed = ParsedFalsy | ParsedDocument metaInfo | ParsedOther

text \<open>
  What the code takes from the JavaScript platform: \<^verbatim>\<open>response.json()\<close> (\<open>None\<close> when
  it throws); the \<^verbatim>\<open>JSON.parse\<close> of line 79 of the handler (\<open>None\<close> when it throws);
  \<^verbatim>\<open>JSON.stringify(metaInfo, null, 2)\<close>, which writes the own properties of the
  document; the string that a value which is not a string is coerced to, as a header
  value, a URL or a property key; and \<^verbatim>\<open>encodeURIComponent\<close>. They are parameters: every
  theorem holds for all of them.
\<close>

record platform =
  JSON_parse :: "string \<Rightarrow> jsval option"
  JSON_parse_MetaInfo :: "string \<Rightarrow> parsed option"
  JSON_stringify :: "metaInfo \<Rightarrow> string"
  ToString :: "jsval \<Rightarrow> string"
  encodeURIComponent :: "string \<Rightarrow> string"

definition to_string :: "platform \<Rightarrow> jsval \<Rightarrow> string" where
  "to_string P v = (case v of JStr s \<Rightarrow> s | _ \<Rightarrow> ToString P v)"

section \<open>The network\<close>

text \<open>
  A request is the URL and the options given to \<^verbatim>\<open>fetch\<close>. A body made by
  \<^verbatim>\<open>JSON.stringify\<close> from an object literal is kept as that object.
\<close>

datatype reqBody = NoBody | JsonBody jsval | TextBody string

record requestInit =
  http_method :: string
  headers :: "(string \<times> string) list"
  body :: reqBody

type_synonym request = "string \<times> requestInit"

record response =
  status :: int
  text_of :: string

text \<open>\<^verbatim>\<open>response.ok\<close>\<close>

definition ok :: "response \<Rightarrow> bool" where
  "ok r = (200 \<le> status r \<and> status r \<le> 299)"

datatype fetch_outcome = Rejected | Response response

text \<open>
  The remote side answers a request knowing every request made before it; nothing else
  is assumed of it.
\<close>

type_synonym network = "request list \<Rightarrow> request \<Rightarrow> fetch_outcome"


section \<open>State\<close>

text \<open>Lines written to the console.\<close>

datatype logline =
    Log_refresh_attempt
  | Log_refresh_done
  | Error_refresh error
  | Warn_refresh_status int
  | Warn_refresh_error error
  | Error_read_metainfo error
  | Error_correct error

text \<open>
  What outlives a call: the requests made so far, the console, the document objects of
  the process (a store indexed by reference, since a document is a mutable object that
  the cache and a handler can both hold), and the Metadata Cache. Of a document object
  the store keeps the own properties (\<open>docs\<close>) and, apart from them, the prototype of its
  \<^verbatim>\<open>folders\<close> object (\<open>protos\<close>): \<open>None\<close> while that is \<^verbatim>\<open>Object.prototype\<close>, as it is
  for every object that \<^verbatim>\<open>JSON.parse\<close> makes.
\<close>

record world =
  trace :: "request list"
  console :: "logline list"
  docs :: "nat \<Rightarrow> metaInfo"
  protos :: "nat \<Rightarrow> jsval option"
  next_ref :: nat
  cache :: "string \<rightharpoonup> nat"

text \<open>\<^verbatim>\<open>fetch(url, options)\<close>\<close>

definition fetch :: "network \<Rightarrow> string \<Rightarrow> requestInit \<Rightarrow> world \<Rightarrow> fetch_outcome \<times> world" where
  "fetch net url options w =
     (net (trace w) (url, options), w\<lparr>trace := trace w @ [(url, options)]\<rparr>)"

text \<open>What awaiting a \<^verbatim>\<open>fetch\<close> gives: the response, or the error thrown.\<close>

definition settle :: "fetch_outcome \<Rightarrow> error + response" where
  "settle x = (case x of Rejected \<Rightarrow> Inl NetworkError | Response r \<Rightarrow> Inr r)"

definition log_line :: "logline \<Rightarrow> world \<Rightarrow> world" where
  "log_line l w = w\<lparr>console := console w @ [l]\<rparr>"

section \<open>The client (openlist.client.ts)\<close>

record client =
  baseURL :: string
  token :: string
  username :: "string option"
  password :: "string option"

text \<open>\<^verbatim>\<open>OpenListClient.login\<close>, lines 43 to 69.\<close>

definition login_options :: "string \<Rightarrow> string \<Rightarrow> requestInit" where
  "login_options u p =
     \<lparr>http_method = ''POST'',
      headers = [(''Content-Type'', ''application/json'')],
      body = JsonBody (JObj [(''username'', JStr u), (''password'', JStr p)])\<rparr>"

text \<open>
  Lines 64 to 68: \<^verbatim>\<open>data.code !== 200 || !data.data?.token\<close> throws, otherwise
  \<^verbatim>\<open>data.data.token\<close> is returned. The client keeps the token as the string it is sent
  as.
\<close>

definition login_token :: "jsval \<Rightarrow> error + jsval" where
  "login_token data =
     (case get_prop data ''code'' of
        Inl e \<Rightarrow> Inl e
      | Inr code \<Rightarrow>
          if code \<noteq> JNum 200 \<or> \<not> truthy (get_prop_opt (get_prop_opt data ''data'') ''token'')
          then Inl LoginNoToken
          else Inr (get_prop_opt (get_prop_opt data ''data'') ''token''))"

definition login ::
  "platform \<Rightarrow> network \<Rightarrow> string \<Rightarrow> string \<Rightarrow> string \<Rightarrow> world \<Rightarrow> (error + string) \<times> world" where
  "login P net base u p w =
     (case fetch net (base @ ''/api/auth/login'') (login_options u p) w of
        (Rejected, w1) \<Rightarrow> (Inl NetworkError, w1)
      | (Response r, w1) \<Rightarrow>
          if \<not> ok r then (Inl (LoginStatus (status r)), w1)
          else (case JSON_parse P (text_of r) of
                  None \<Rightarrow> (Inl SyntaxError, w1)
                | Some data \<Rightarrow>
                    (case login_token data of
                       Inl e \<Rightarrow> (Inl e, w1)
                     | Inr t \<Rightarrow> (Inr (to_string P t), w1))))"

text \<open>\<^verbatim>\<open>refreshToken\<close>, lines 74 to 92.\<close>

definition refreshToken ::
  "platform \<Rightarrow> network \<Rightarrow> client \<Rightarrow> world \<Rightarrow> bool \<times> client \<times> world" where
  "refreshToken P net c w =
     (case (username c, password c) of
        (Some u, Some p) \<Rightarrow>
          if u = [] \<or> p = [] then (False, c, w)
          else (case login P net (baseURL c) u p (log_line Log_refresh_attempt w) of
                  (Inr t, w1) \<Rightarrow> (True, c\<lparr>token := t\<rparr>, log_line Log_refresh_done w1)
                | (Inl e, w1) \<Rightarrow> (False, c, log_line (Error_refresh e) w1))
      | _ \<Rightarrow> (False, c, w))"

text \<open>
  \<^verbatim>\<open>fetchWithRetry\<close>, lines 97 to 121. The spread
  \<^verbatim>\<open>{...options.headers, Authorization: this.token}\<close> replaces the value of the
  Authorization header where it stands, or adds the header last.
\<close>

function fetchWithRetry ::
  "platform \<Rightarrow> network \<Rightarrow> string \<Rightarrow> requestInit \<Rightarrow> bool \<Rightarrow> client \<Rightarrow> world
     \<Rightarrow> (error + response) \<times> client \<times> world" where
  "fetchWithRetry P net url options retried c w =
     (case fetch net url options w of
        (Rejected, w1) \<Rightarrow> (Inl NetworkError, c, w1)
      | (Response r, w1) \<Rightarrow>
          if status r = 401 \<and> \<not> retried \<and> truthy_str (username c) \<and> truthy_str (password c)
          then (case refreshToken P net c w1 of
                  (True, c2, w2) \<Rightarrow>
                    fetchWithRetry P net url
                      (options\<lparr>headers := AList.update ''Authorization'' (token c2) (headers options)\<rparr>)
                      True c2 w2
                | (False, c2, w2) \<Rightarrow> (Inr r, c2, w2))
          else (Inr r, c, w1))"
  by pat_completeness auto
termination
  by (relation "measure (\<lambda>(P, net, url, options, retried, c, w). if retried then 0 else 1)")
     (auto split: prod.splits)

definition getHeaders :: "client \<Rightarrow> (string \<times> string) list" where
  "getHeaders c = [(''Authorization'', token c), (''Content-Type'', ''application/json'')]"

text \<open>\<^verbatim>\<open>listDirectory\<close>, lines 131 to 153 (the defaults of \<open>page\<close> and \<open>perPage\<close> are the caller's).\<close>

definition list_options :: "client \<Rightarrow> string \<Rightarrow> bool \<Rightarrow> int \<Rightarrow> int \<Rightarrow> requestInit" where
  "list_options c path refresh page perPage =
     \<lparr>http_method = ''POST'',
      headers = getHeaders c,
      body = JsonBody (JObj [(''path'', JStr path), (''password'', JStr []),
                            (''refresh'', JBool refresh), (''page'', JNum (of_int page)),
                            (''per_page'', JNum (of_int perPage))])\<rparr>"

definition listDirectory ::
  "platform \<Rightarrow> network \<Rightarrow> string \<Rightarrow> int \<Rightarrow> int \<Rightarrow> client \<Rightarrow> world
     \<Rightarrow> (error + jsval) \<times> client \<times> world" where
  "listDirectory P net path page perPage c w =
     (case fetchWithRetry P net (baseURL c @ ''/api/fs/list'')
             (list_options c path False page perPage) False c w of
        (Inl e, c1, w1) \<Rightarrow> (Inl e, c1, w1)
      | (Inr r, c1, w1) \<Rightarrow>
          if \<not> ok r then (Inl (ApiStatus (status r)), c1, w1)
          else (case JSON_parse P (text_of r) of
                  None \<Rightarrow> (Inl SyntaxError, c1, w1)
                | Some v \<Rightarrow> (Inr v, c1, w1)))"

text \<open>\<^verbatim>\<open>getFile\<close>, lines 156 to 171.\<close>

definition get_options :: "client \<Rightarrow> string \<Rightarrow> requestInit" where
  "get_options c path =
     \<lparr>http_method = ''POST'',
      headers = getHeaders c,
      body = JsonBody (JObj [(''path'', JStr path), (''password'', JStr [])])\<rparr>"

definition getFile ::
  "platform \<Rightarrow> network \<Rightarrow> string \<Rightarrow> client \<Rightarrow> world \<Rightarrow> (error + jsval) \<times> client \<times> world" where
  "getFile P net path c w =
     (case fetchWithRetry P net (baseURL c @ ''/api/fs/get'') (get_options c path) False c w of
        (Inl e, c1, w1) \<Rightarrow> (Inl e, c1, w1)
      | (Inr r, c1, w1) \<Rightarrow>
          if \<not> ok r then (Inl (ApiStatus (status r)), c1, w1)
          else (case JSON_parse P (text_of r) of
                  None \<Rightarrow> (Inl SyntaxError, c1, w1)
                | Some v \<Rightarrow> (Inr v, c1, w1)))"

text \<open>
  \<^verbatim>\<open>path.lastIndexOf('/')\<close> and \<^verbatim>\<open>path.substring(a, b)\<close>: the index is \<open>-1\<close> when the
  character does not occur, and \<open>substring\<close> clamps its bounds to the string and swaps
  them when the first is the larger.
\<close>

fun lastIndexOf :: "string \<Rightarrow> char \<Rightarrow> int" where
  "lastIndexOf [] c = - 1"
| "lastIndexOf (x # xs) c =
     (let i = lastIndexOf xs c in if 0 \<le> i then i + 1 else if x = c then 0 else - 1)"

definition substring :: "string \<Rightarrow> int \<Rightarrow> int \<Rightarrow> string" where
  "substring s a b =
     (let n = int (length s);
          a' = max 0 (min a n);
          b' = max 0 (min b n)
      in take (nat (max a' b' - min a' b')) (drop (nat (min a' b')) s))"

text \<open>\<^verbatim>\<open>path.substring(0, path.lastIndexOf('/')) || '/'\<close>, lines 192 and 221.\<close>

definition dir_of :: "string \<Rightarrow> string" where
  "dir_of path =
     (let d = substring path 0 (lastIndexOf path CHR ''/'') in if d = [] then ''/'' else d)"

text \<open>
  \<^verbatim>\<open>refreshDirectory\<close>, lines 197 to 217: first the block under \<^verbatim>\<open>try\<close>, then the whole
  method with its \<^verbatim>\<open>catch\<close>.
\<close>

definition refreshDirectory_try ::
  "platform \<Rightarrow> network \<Rightarrow> string \<Rightarrow> client \<Rightarrow> world \<Rightarrow> (error + unit) \<times> client \<times> world" where
  "refreshDirectory_try P net path c w =
     (case fetchWithRetry P net (baseURL c @ ''/api/fs/list'') (list_options c path True 1 1) False c w of
        (Inl e, c1, w1) \<Rightarrow> (Inl e, c1, w1)
      | (Inr r, c1, w1) \<Rightarrow>
          if \<not> ok r then (Inr (), c1, log_line (Warn_refresh_status (status r)) w1)
          else (Inr (), c1, w1))"

definition refreshDirectory ::
  "platform \<Rightarrow> network \<Rightarrow> string \<Rightarrow> client \<Rightarrow> world \<Rightarrow> (error + unit) \<times> client \<times> world" where
  "refreshDirectory P net path c w =
     (case refreshDirectory_try P net path c w of
        (Inl e, c1, w1) \<Rightarrow> (Inr (), c1, log_line (Warn_refresh_error e) w1)
      | (Inr u, c1, w1) \<Rightarrow> (Inr u, c1, w1))"

text \<open>\<^verbatim>\<open>uploadFile\<close>, lines 174 to 194.\<close>

definition put_options :: "platform \<Rightarrow> client \<Rightarrow> string \<Rightarrow> string \<Rightarrow> requestInit" where
  "put_options P c path content =
     \<lparr>http_method = ''PUT'',
      headers = [(''Authorization'', token c),
                 (''Content-Type'', ''text/plain; charset=utf-8''),
                 (''File-Path'', encodeURIComponent P path),
                 (''As-Task'', ''false'')],
      body = TextBody content\<rparr>"

definition uploadFile ::
  "platform \<Rightarrow> network \<Rightarrow> string \<Rightarrow> string \<Rightarrow> client \<Rightarrow> world
     \<Rightarrow> (error + unit) \<times> client \<times> world" where
  "uploadFile P net path content c w =
     (case fetchWithRetry P net (baseURL c @ ''/api/fs/put'') (put_options P c path content) False c w of
        (Inl e, c1, w1) \<Rightarrow> (Inl e, c1, w1)
      | (Inr r, c1, w1) \<Rightarrow>
          if \<not> ok r then (Inl (UploadStatus (status r) (text_of r)), c1, w1)
          else refreshDirectory P net (dir_of path) c1 w1)"

text \<open>\<^verbatim>\<open>deleteFile\<close>, lines 220 to 236.\<close>

definition remove_options :: "client \<Rightarrow> string \<Rightarrow> requestInit" where
  "remove_options c path =
     \<lparr>http_method = ''POST'',
      headers = getHeaders c,
      body = JsonBody (JObj
        [(''names'', JArr [JStr (substring path (lastIndexOf path CHR ''/'' + 1) (int (length path)))]),
         (''dir'', JStr (dir_of path))])\<rparr>"

definition deleteFile ::
  "platform \<Rightarrow> network \<Rightarrow> string \<Rightarrow> client \<Rightarrow> world \<Rightarrow> (error + unit) \<times> client \<times> world" where
  "deleteFile P net path c w =
     (case fetchWithRetry P net (baseURL c @ ''/api/fs/remove'') (remove_options c path) False c w of
        (Inl e, c1, w1) \<Rightarrow> (Inl e, c1, w1)
      | (Inr r, c1, w1) \<Rightarrow>
          if \<not> ok r then (Inl (DeleteStatus (status r)), c1, w1)
          else (Inr (), c1, w1))"


section \<open>The Metadata Cache\<close>

text \<open>
  Modelled from the spec: the functions \<^verbatim>\<open>getCachedMetaInfo\<close>, \<^verbatim>\<open>setCachedMetaInfo\<close> and
  \<^verbatim>\<open>invalidateMetaInfoCache\<close> of the module \<^verbatim>\<open>openlist-cache\<close>, which is not among the
  sources. The cache is keyed by storage root path and holds one document object per
  root: \<open>get\<close> returns the last cached document for the root, or absent; \<open>set\<close> stores or
  overwrites it; \<open>invalidate\<close> clears it. The document is a single mutable object, which
  a correction mutates in place, so what the cache holds and returns is the reference.
\<close>

definition getCachedMetaInfo :: "string \<Rightarrow> world \<Rightarrow> nat option" where
  "getCachedMetaInfo rootPath w = cache w rootPath"

definition setCachedMetaInfo :: "string \<Rightarrow> nat \<Rightarrow> world \<Rightarrow> world" where
  "setCachedMetaInfo rootPath a w = w\<lparr>cache := (cache w)(rootPath \<mapsto> a)\<rparr>"

definition invalidateMetaInfoCache :: "string \<Rightarrow> world \<Rightarrow> world" where
  "invalidateMetaInfoCache rootPath w = w\<lparr>cache := (cache w)(rootPath := None)\<rparr>"

section \<open>The handler (POST /api/openlist/correct)\<close>

text \<open>
  What the handler is given: the result of \<^verbatim>\<open>getAuthInfoFromCookie(request)\<close>, the result
  of \<^verbatim>\<open>request.json()\<close> (\<open>None\<close> when it rejects), the result of \<^verbatim>\<open>getConfig()\<close> (\<open>None\<close>
  when it rejects) and the value of \<^verbatim>\<open>Date.now()\<close> at line 106. An optional field that
  is \<^verbatim>\<open>undefined\<close> is \<open>None\<close>.
\<close>

record authInfo =
  auth_username :: "string option"

record nextRequest =
  cookie_auth :: "authInfo option"
  json_body :: "jsval option"

record openListConfig =
  URL :: "string option"
  Token :: "string option"
  Username :: "string option"
  Password :: "string option"
  RootPath :: "string option"

record adminConfig =
  OpenListConfig :: "openListConfig option"

text \<open>
  The responses, with the status they are sent with. The error texts are, in order:
  not authorised (line 25), parameters missing (line 33), OpenList not configured (line
  43), metainfo.json could not be read (line 84), metainfo.json does not exist (line 92)
  and correction failed (line 127, sent with the message of the error).
\<close>

datatype errorText = Unauthorized | MissingParams | NotConfigured | ReadFailed | NotFound | CorrectFailed

datatype payload = ErrorJson errorText | ErrorDetailsJson errorText error | SuccessJson

datatype nextResponse = NextResponse payload int

text \<open>Line 29: the destructuring throws on \<^verbatim>\<open>null\<close>, and gives \<^verbatim>\<open>undefined\<close> for a missing field.\<close>

record fields =
  folder :: jsval
  tmdbId :: jsval
  title :: jsval
  posterPath :: jsval
  releaseDate :: jsval
  overview :: jsval
  voteAverage :: jsval
  mediaType :: jsval

definition destructure :: "jsval \<Rightarrow> error + fields" where
  "destructure b =
     (case get_prop b ''folder'' of
        Inl e \<Rightarrow> Inl e
      | Inr v \<Rightarrow>
          Inr \<lparr>folder = v,
               tmdbId = get_prop_opt b ''tmdbId'',
               title = get_prop_opt b ''title'',
               posterPath = get_prop_opt b ''posterPath'',
               releaseDate = get_prop_opt b ''releaseDate'',
               overview = get_prop_opt b ''overview'',
               voteAverage = get_prop_opt b ''voteAverage'',
               mediaType = get_prop_opt b ''mediaType''\<rparr>)"

text \<open>
  Lines 23 to 46: a step of the handler either throws, returns a response, or goes on.
\<close>

datatype 'a step = Throw error | Return nextResponse | Continue 'a

definition validate :: "nextRequest \<Rightarrow> adminConfig option \<Rightarrow> (fields \<times> openListConfig) step" where
  "validate request config =
     (case cookie_auth request of
        None \<Rightarrow> Return (NextResponse (ErrorJson Unauthorized) 401)
      | Some ai \<Rightarrow>
          if \<not> truthy_str (auth_username ai) then Return (NextResponse (ErrorJson Unauthorized) 401)
          else (case json_body request of
                  None \<Rightarrow> Throw SyntaxError
                | Some b \<Rightarrow>
                    (case destructure b of
                       Inl e \<Rightarrow> Throw e
                     | Inr f \<Rightarrow>
                         if \<not> truthy (folder f) \<or> \<not> truthy (tmdbId f)
                         then Return (NextResponse (ErrorJson MissingParams) 400)
                         else (case config of
                                 None \<Rightarrow> Throw ExternalError
                               | Some cfg \<Rightarrow>
                                   (case OpenListConfig cfg of
                                      None \<Rightarrow> Return (NextResponse (ErrorJson NotConfigured) 400)
                                    | Some olc \<Rightarrow>
                                        if \<not> truthy_str (URL olc) \<or> \<not> truthy_str (Token olc)
                                        then Return (NextResponse (ErrorJson NotConfigured) 400)
                                        else Continue (f, olc))))))"

text \<open>\<^verbatim>\<open>s || d\<close> for an optional string.\<close>

definition str_or :: "string option \<Rightarrow> string \<Rightarrow> string" where
  "str_or s d = (case s of None \<Rightarrow> d | Some x \<Rightarrow> if x = [] then d else x)"

text \<open>\<^verbatim>\<open>s.endsWith(t)\<close>\<close>

definition endsWith :: "string \<Rightarrow> string \<Rightarrow> bool" where
  "endsWith s t = (length t \<le> length s \<and> drop (length s - length t) s = t)"

text \<open>Lines 61 and 111, the same expression.\<close>

definition metainfoPath :: "string \<Rightarrow> string" where
  "metainfoPath rootPath = rootPath @ (if endsWith rootPath ''/'' then [] else ''/'') @ ''metainfo.json''"

text \<open>Lines 48 to 54.\<close>

definition rootPath_of :: "openListConfig \<Rightarrow> string" where
  "rootPath_of olc = str_or (RootPath olc) ''/''"

definition new_client :: "openListConfig \<Rightarrow> client" where
  "new_client olc =
     \<lparr>baseURL = str_or (URL olc) [], token = str_or (Token olc) [],
      username = Username olc, password = Password olc\<rparr>"

text \<open>
  Line 64: \<^verbatim>\<open>fileResponse.code === 200 && fileResponse.data.raw_url\<close>, with the URL when
  the condition holds.
\<close>

definition raw_url_of :: "jsval \<Rightarrow> error + jsval option" where
  "raw_url_of fileResponse =
     (case get_prop fileResponse ''code'' of
        Inl e \<Rightarrow> Inl e
      | Inr code \<Rightarrow>
          if code \<noteq> JNum 200 then Inr None
          else (case get_prop fileResponse ''data'' of
                  Inl e \<Rightarrow> Inl e
                | Inr d \<Rightarrow>
                    (case get_prop d ''raw_url'' of
                       Inl e \<Rightarrow> Inl e
                     | Inr u \<Rightarrow> if truthy u then Inr (Some u) else Inr None)))"

definition download_options :: requestInit where
  "download_options =
     \<lparr>http_method = ''GET'',
      headers = [(''User-Agent'', ''Mozilla/5.0 (Windows NT 10.0; Win64; x64) AppleWebKit/537.36 (KHTML, like Gecko) Chrome/120.0.0.0 Safari/537.36''),
                 (''Accept'', ''*/*''),
                 (''Accept-Language'', ''zh-CN,zh;q=0.9,en;q=0.8'')],
      body = NoBody\<rparr>"

text \<open>A parsed document is a new object, with the prototype every object starts with.\<close>

definition alloc :: "metaInfo \<Rightarrow> world \<Rightarrow> nat \<times> world" where
  "alloc d w =
     (next_ref w,
      w\<lparr>docs := (docs w)(next_ref w := d), protos := (protos w)(next_ref w := None),
        next_ref := Suc (next_ref w)\<rparr>)"

text \<open>
  The variable \<^verbatim>\<open>metaInfo\<close> of the handler: \<^verbatim>\<open>null\<close> (or another falsy value), a document
  object, or a truthy value that is not a document.
\<close>

datatype loaded = Absent | Loaded nat | Unusable

text \<open>
  Lines 61 to 80, the block under the inner \<^verbatim>\<open>try\<close>, with the value of \<^verbatim>\<open>metaInfo\<close> after
  it: still \<^verbatim>\<open>null\<close> when the condition of line 64 fails.
\<close>

definition readMetaInfo_try ::
  "platform \<Rightarrow> network \<Rightarrow> string \<Rightarrow> client \<Rightarrow> world \<Rightarrow> (error + loaded) \<times> client \<times> world" where
  "readMetaInfo_try P net rootPath c w =
     (case getFile P net (metainfoPath rootPath) c w of
        (Inl e, c1, w1) \<Rightarrow> (Inl e, c1, w1)
      | (Inr fileResponse, c1, w1) \<Rightarrow>
          (case raw_url_of fileResponse of
             Inl e \<Rightarrow> (Inl e, c1, w1)
           | Inr None \<Rightarrow> (Inr Absent, c1, w1)
           | Inr (Some downloadUrl) \<Rightarrow>
               (case fetch net (to_string P downloadUrl) download_options w1 of
                  (Rejected, w2) \<Rightarrow> (Inl NetworkError, c1, w2)
                | (Response contentResponse, w2) \<Rightarrow>
                    if \<not> ok contentResponse
                    then (Inl (DownloadStatus (status contentResponse)), c1, w2)
                    else (case JSON_parse_MetaInfo P (text_of contentResponse) of
                            None \<Rightarrow> (Inl SyntaxError, c1, w2)
                          | Some ParsedFalsy \<Rightarrow> (Inr Absent, c1, w2)
                          | Some ParsedOther \<Rightarrow> (Inr Unusable, c1, w2)
                          | Some (ParsedDocument d) \<Rightarrow>
                              (case alloc d w2 of (a, w3) \<Rightarrow> (Inr (Loaded a), c1, w3))))))"

text \<open>Lines 98 to 108: the object literal that becomes the entry of the folder.\<close>

definition folderEntry :: "fields \<Rightarrow> int \<Rightarrow> jsval" where
  "folderEntry f now =
     JObj [(''tmdb_id'', tmdbId f),
           (''title'', title f),
           (''poster_path'', posterPath f),
           (''release_date'', or_else (releaseDate f) (JStr [])),
           (''overview'', or_else (overview f) (JStr [])),
           (''vote_average'', or_else (voteAverage f) (JNum 0)),
           (''media_type'', mediaType f),
           (''last_updated'', JNum (of_int now)),
           (''failed'', JBool False)]"

text \<open>
  Line 98: \<^verbatim>\<open>metaInfo.folders[folder] = entry\<close>, on the document object that \<open>a\<close> refers to.
  The assignment writes the own property of that name, creating it when it is not there,
  for every name but one. For the name \<^verbatim>\<open>__proto__\<close>, when \<^verbatim>\<open>folders\<close> has no own property of
  that name, the assignment reaches the setter that \<^verbatim>\<open>Object.prototype\<close> has for it: the
  entry, an object, becomes the prototype of \<^verbatim>\<open>folders\<close>, and no own property is made.
  (When \<^verbatim>\<open>folders\<close> has an own property \<^verbatim>\<open>__proto__\<close>, as \<^verbatim>\<open>JSON.parse\<close> makes one for that
  key, the assignment writes it like any other.)
\<close>

definition set_folder :: "platform \<Rightarrow> nat \<Rightarrow> jsval \<Rightarrow> jsval \<Rightarrow> world \<Rightarrow> world" where
  "set_folder P a k entry w =
     (if to_string P k = ''__proto__'' \<and> folders (docs w a) ''__proto__'' = None
      then w\<lparr>protos := (protos w)(a := Some entry)\<rparr>
      else w\<lparr>docs := (docs w)(a := (docs w a)\<lparr>folders := (folders (docs w a))(to_string P k \<mapsto> entry)\<rparr>)\<rparr>)"

text \<open>Lines 97 to 123: the entry is replaced, the document is uploaded, the cache is updated.\<close>

definition saveCorrection ::
  "platform \<Rightarrow> network \<Rightarrow> string \<Rightarrow> fields \<Rightarrow> int \<Rightarrow> nat \<Rightarrow> client \<Rightarrow> world
     \<Rightarrow> (error + nextResponse) \<times> world" where
  "saveCorrection P net rootPath f now a c w =
     (let w1 = set_folder P a (folder f) (folderEntry f now) w;
          metainfoContent = JSON_stringify P (docs w1 a)
      in case uploadFile P net (metainfoPath rootPath) metainfoContent c w1 of
           (Inl e, c2, w2) \<Rightarrow> (Inl e, w2)
         | (Inr u, c2, w2) \<Rightarrow>
             (Inr (NextResponse SuccessJson 200),
              setCachedMetaInfo rootPath a (invalidateMetaInfoCache rootPath w2)))"

text \<open>
  Lines 48 to 123. On a value that is truthy but no document, line 98 throws before
  anything is uploaded.
\<close>

definition correct ::
  "platform \<Rightarrow> network \<Rightarrow> openListConfig \<Rightarrow> fields \<Rightarrow> int \<Rightarrow> world \<Rightarrow> (error + nextResponse) \<times> world" where
  "correct P net olc f now w =
     (case getCachedMetaInfo (rootPath_of olc) w of
        Some a \<Rightarrow> saveCorrection P net (rootPath_of olc) f now a (new_client olc) w
      | None \<Rightarrow>
          (case readMetaInfo_try P net (rootPath_of olc) (new_client olc) w of
             (Inl e, c1, w1) \<Rightarrow>
               (Inr (NextResponse (ErrorJson ReadFailed) 500), log_line (Error_read_metainfo e) w1)
           | (Inr Absent, c1, w1) \<Rightarrow> (Inr (NextResponse (ErrorJson NotFound) 404), w1)
           | (Inr Unusable, c1, w1) \<Rightarrow> (Inl TypeError, w1)
           | (Inr (Loaded a), c1, w1) \<Rightarrow> saveCorrection P net (rootPath_of olc) f now a c1 w1))"

text \<open>The block under the outer \<^verbatim>\<open>try\<close>, and the handler with its \<^verbatim>\<open>catch\<close>.\<close>

definition POST_try ::
  "platform \<Rightarrow> network \<Rightarrow> adminConfig option \<Rightarrow> int \<Rightarrow> nextRequest \<Rightarrow> world
     \<Rightarrow> (error + nextResponse) \<times> world" where
  "POST_try P net config now request w =
     (case validate request config of
        Throw e \<Rightarrow> (Inl e, w)
      | Return resp \<Rightarrow> (Inr resp, w)
      | Continue (f, olc) \<Rightarrow> correct P net olc f now w)"

definition POST ::
  "platform \<Rightarrow> network \<Rightarrow> adminConfig option \<Rightarrow> int \<Rightarrow> nextRequest \<Rightarrow> world \<Rightarrow> nextResponse \<times> world" where
  "POST P net config now request w =
     (case POST_try P net config now request w of
        (Inr resp, w1) \<Rightarrow> (resp, w1)
      | (Inl e, w1) \<Rightarrow> (NextResponse (ErrorDetailsJson CorrectFailed e) 500, log_line (Error_correct e) w1))"


section \<open>Reading the state\<close>

text \<open>
  Two worlds with the same document objects and the same cache: what a call of the
  client leaves behind, since it only talks to the remote side.
\<close>

definition same_store :: "world \<Rightarrow> world \<Rightarrow> bool" where
  "same_store w w' =
     (docs w' = docs w \<and> protos w' = protos w \<and> next_ref w' = next_ref w \<and> cache w' = cache w)"

text \<open>
  The \<open>last_updated\<close> of the entry of a folder in the document cached for a root
  (\<^verbatim>\<open>undefined\<close> when there is no such document or no such entry).
\<close>

definition last_updated_of :: "world \<Rightarrow> string \<Rightarrow> string \<Rightarrow> jsval" where
  "last_updated_of w rootPath k =
     (case cache w rootPath of
        None \<Rightarrow> JUndefined
      | Some a \<Rightarrow>
          (case folders (docs w a) k of
             None \<Rightarrow> JUndefined
           | Some e \<Rightarrow> get_prop_opt e ''last_updated''))"

text \<open>Whether a value is an object with an own property of the name.\<close>

fun has_field :: "jsval \<Rightarrow> string \<Rightarrow> bool" where
  "has_field (JObj ps) k = (map_of ps k \<noteq> None)"
| "has_field v k = False"

text \<open>The order of two numbers; no other values are compared here.\<close>

definition js_less :: "jsval \<Rightarrow> jsval \<Rightarrow> bool" where
  "js_less a b = (case (a, b) of (JNum x, JNum y) \<Rightarrow> x < y | _ \<Rightarrow> False)"

section \<open>Example inputs\<close>

text \<open>
  A small remote side and the platform functions on the texts it sends, for running the
  definitions. The server \<open>ex_net\<close> knows one valid token, \<open>fresh\<close>, which its login
  endpoint hands out; \<open>ex_net_with\<close> overrides its answer for chosen URLs. The example
  \<open>JSON_stringify\<close> only tells a document with an entry for \<open>Movie\<close> from one without.
\<close>

definition ex_login_json :: string where
  "ex_login_json = ''{\"code\":200,\"data\":{\"token\":\"fresh\"}}''"

definition ex_get_json :: string where
  "ex_get_json = ''{\"code\":200,\"data\":{\"raw_url\":\"http://cdn/metainfo.json\"}}''"

definition ex_missing_json :: string where
  "ex_missing_json = ''{\"code\":500,\"message\":\"object not found\"}''"

definition ex_doc_json :: string where
  "ex_doc_json = ''{\"folders\":{}}''"

definition ex_platform :: platform where
  "ex_platform =
     \<lparr>JSON_parse = (\<lambda>s.
        if s = ex_login_json
        then Some (JObj [(''code'', JNum 200), (''data'', JObj [(''token'', JStr ''fresh'')])])
        else if s = ex_get_json
        then Some (JObj [(''code'', JNum 200),
                         (''data'', JObj [(''raw_url'', JStr ''http://cdn/metainfo.json'')])])
        else if s = ex_missing_json
        then Some (JObj [(''code'', JNum 500), (''message'', JStr ''object not found'')])
        else None),
      JSON_parse_MetaInfo = (\<lambda>s.
        if s = ex_doc_json then Some (ParsedDocument \<lparr>folders = Map.empty\<rparr>)
        else if s = ''null'' then Some ParsedFalsy
        else if s = ''{}'' then Some ParsedOther
        else None),
      JSON_stringify = (\<lambda>d.
        case folders d ''Movie'' of
          None \<Rightarrow> ex_doc_json
        | Some e \<Rightarrow> ''{\"folders\":{\"Movie\":{\"tmdb_id\":603}}}''),
      ToString = (\<lambda>v. ''[object Object]''),
      encodeURIComponent = (\<lambda>s. concat (map (\<lambda>c. if c = CHR ''/'' then ''%2F'' else [c]) s))\<rparr>"

definition ex_net :: network where
  "ex_net h r =
     (if fst r = ''http://cdn/metainfo.json'' then Response \<lparr>status = 200, text_of = ex_doc_json\<rparr>
      else if fst r = ''http://h/api/auth/login'' then Response \<lparr>status = 200, text_of = ex_login_json\<rparr>
      else if map_of (headers (snd r)) ''Authorization'' \<noteq> Some ''fresh''
      then Response \<lparr>status = 401, text_of = []\<rparr>
      else if fst r = ''http://h/api/fs/get'' then Response \<lparr>status = 200, text_of = ex_get_json\<rparr>
      else Response \<lparr>status = 200, text_of = ''{\"code\":200}''\<rparr>)"

definition ex_net_with :: "(string \<rightharpoonup> fetch_outcome) \<Rightarrow> network" where
  "ex_net_with f h r = (case f (fst r) of Some out \<Rightarrow> out | None \<Rightarrow> ex_net h r)"

definition ex_olc :: openListConfig where
  "ex_olc =
     \<lparr>URL = Some ''http://h'', Token = Some ''stale'', Username = Some ''admin'',
      Password = Some ''secret'', RootPath = Some ''/media''\<rparr>"

definition ex_client :: client where
  "ex_client = new_client ex_olc"

text \<open>A remote side that answers every request, the login too, with 401.\<close>

definition ex_net_401 :: network where
  "ex_net_401 = ex_net_with (\<lambda>u. Some (Response \<lparr>status = 401, text_of = []\<rparr>))"

definition ex_config :: "adminConfig option" where
  "ex_config = Some \<lparr>OpenListConfig = Some ex_olc\<rparr>"

definition ex_body :: jsval where
  "ex_body =
     JObj [(''folder'', JStr ''Movie''), (''tmdbId'', JNum 603), (''title'', JStr ''The Matrix''),
           (''mediaType'', JStr ''movie'')]"

definition ex_request :: nextRequest where
  "ex_request = \<lparr>cookie_auth = Some \<lparr>auth_username = Some ''alice''\<rparr>, json_body = Some ex_body\<rparr>"

definition ex_fields :: fields where
  "ex_fields =
     \<lparr>folder = JStr ''Movie'', tmdbId = JNum 603, title = JStr ''The Matrix'',
      posterPath = JUndefined, releaseDate = JUndefined, overview = JUndefined,
      voteAverage = JUndefined, mediaType = JStr ''movie''\<rparr>"

definition ex_world :: world where
  "ex_world =
     \<lparr>trace = [], console = [], docs = (\<lambda>a. \<lparr>folders = Map.empty\<rparr>), protos = (\<lambda>a. None),
      next_ref = 0, cache = Map.empty\<rparr>"

text \<open>
  The same with one cached document, for the root \<open>/media\<close>, holding two entries; the one
  for \<open>Movie\<close> is marked as failed.
\<close>

definition ex_series :: jsval where
  "ex_series = JObj [(''tmdb_id'', JNum 1399), (''title'', JStr ''Game of Thrones''), (''failed'', JBool False)]"

definition ex_world_cached :: world where
  "ex_world_cached =
     \<lparr>trace = [], console = [],
      docs = (\<lambda>a. \<lparr>folders =
        [''Series'' \<mapsto> ex_series,
         ''Movie'' \<mapsto> JObj [(''tmdb_id'', JNum 604), (''overview'', JStr ''a sequel''), (''failed'', JBool True)]]\<rparr>),
      protos = (\<lambda>a. None), next_ref = 1, cache = [''/media'' \<mapsto> 0]\<rparr>"

text \<open>A correction of the folder named \<open>__proto__\<close>, and a request whose body is \<^verbatim>\<open>null\<close>.\<close>

definition ex_request_proto :: nextRequest where
  "ex_request_proto =
     \<lparr>cookie_auth = Some \<lparr>auth_username = Some ''alice''\<rparr>,
      json_body = Some (JObj [(''folder'', JStr ''__proto__''), (''tmdbId'', JNum 603),
                              (''title'', JStr ''The Matrix''), (''mediaType'', JStr ''movie'')])\<rparr>"

definition ex_request_null :: nextRequest where
  "ex_request_null = \<lparr>cookie_auth = Some \<lparr>auth_username = Some ''alice''\<rparr>, json_body = Some JNull\<rparr>"

text \<open>A remote side on which uploading fails.\<close>

definition ex_net_put_fails :: network where
  "ex_net_put_fails =
     ex_net_with [''http://h/api/fs/put'' \<mapsto> Response \<lparr>status = 500, text_of = ''storage is read-only''\<rparr>]"

text \<open>A remote side on which the listing of a directory cannot be reached.\<close>

definition ex_net_list_down :: network where
  "ex_net_list_down = ex_net_with [''http://h/api/fs/list'' \<mapsto> Rejected]"

text \<open>A remote side whose download host cannot be reached.\<close>

definition ex_net_cdn_down :: network where
  "ex_net_cdn_down = ex_net_with [''http://cdn/metainfo.json'' \<mapsto> Rejected]"

text \<open>A remote side that has no file at the path asked for.\<close>

definition ex_net_no_file :: network where
  "ex_net_no_file =
     ex_net_with [''http://h/api/fs/get'' \<mapsto> Response \<lparr>status = 200, text_of = ex_missing_json\<rparr>]"


section \<open>The retry wrapper\<close>

text \<open>The equation of \<open>fetchWithRetry\<close> is applied by hand: it rewrites its own right-hand side.\<close>

declare fetchWithRetry.simps [simp del]

lemmas ex_defs =
  ex_login_json_def ex_get_json_def ex_missing_json_def ex_doc_json_def ex_platform_def ex_net_def
  ex_net_with_def ex_net_401_def ex_net_put_fails_def ex_net_list_down_def ex_net_cdn_down_def
  ex_net_no_file_def
  ex_series_def ex_client_def ex_olc_def ex_config_def ex_body_def ex_request_def ex_fields_def ex_world_def
  ex_world_cached_def ex_request_proto_def ex_request_null_def

lemmas client_defs =
  fetch_def settle_def log_line_def login_options_def login_token_def login_def refreshToken_def
  getHeaders_def list_options_def listDirectory_def get_options_def getFile_def substring_def
  dir_of_def refreshDirectory_try_def refreshDirectory_def put_options_def uploadFile_def
  remove_options_def deleteFile_def ok_def truthy_str_def get_prop_opt_def or_else_def to_string_def

lemmas handler_defs =
  getCachedMetaInfo_def setCachedMetaInfo_def invalidateMetaInfoCache_def destructure_def
  validate_def str_or_def endsWith_def metainfoPath_def rootPath_of_def new_client_def
  raw_url_of_def download_options_def alloc_def readMetaInfo_try_def folderEntry_def
  set_folder_def saveCorrection_def correct_def POST_try_def POST_def Let_def

lemma fetchWithRetry_retried:
  "fetchWithRetry P net url options True c w =
     (settle (net (trace w) (url, options)), c, w\<lparr>trace := trace w @ [(url, options)]\<rparr>)"
  by (subst fetchWithRetry.simps) (simp add: fetch_def settle_def split: fetch_outcome.splits)

lemma fetchWithRetry_rejected:
  "net (trace w) (url, options) = Rejected \<Longrightarrow>
   fetchWithRetry P net url options retried c w =
     (Inl NetworkError, c, w\<lparr>trace := trace w @ [(url, options)]\<rparr>)"
  by (subst fetchWithRetry.simps) (simp add: fetch_def)

lemma fetchWithRetry_plain:
  "net (trace w) (url, options) = Response r \<Longrightarrow>
   \<not> (status r = 401 \<and> \<not> retried \<and> truthy_str (username c) \<and> truthy_str (password c)) \<Longrightarrow>
   fetchWithRetry P net url options retried c w =
     (Inr r, c, w\<lparr>trace := trace w @ [(url, options)]\<rparr>)"
  by (subst fetchWithRetry.simps) (auto simp: fetch_def)

lemma login_world:
  "snd (login P net base u p w) = w\<lparr>trace := trace w @ [(base @ ''/api/auth/login'', login_options u p)]\<rparr>"
  by (simp add: login_def fetch_def split: fetch_outcome.splits option.splits sum.splits)

lemma refreshToken_creds:
  "username c = Some u \<Longrightarrow> u \<noteq> [] \<Longrightarrow> password c = Some p \<Longrightarrow> p \<noteq> [] \<Longrightarrow>
   refreshToken P net c w =
     (case fst (login P net (baseURL c) u p (log_line Log_refresh_attempt w)) of
        Inr t \<Rightarrow> (True, c\<lparr>token := t\<rparr>,
                  log_line Log_refresh_done (snd (login P net (baseURL c) u p (log_line Log_refresh_attempt w))))
      | Inl e \<Rightarrow> (False, c,
                  log_line (Error_refresh e) (snd (login P net (baseURL c) u p (log_line Log_refresh_attempt w)))))"
  by (simp add: refreshToken_def split: prod.splits sum.splits)

lemma fetchWithRetry_refresh:
  assumes "net (trace w) (url, options) = Response r" and "status r = 401"
    and "username c = Some u" and "u \<noteq> []" and "password c = Some p" and "p \<noteq> []"
  shows "fetchWithRetry P net url options False c w =
     (case refreshToken P net c (w\<lparr>trace := trace w @ [(url, options)]\<rparr>) of
        (True, c2, w2) \<Rightarrow>
          (settle (net (trace w2) (url, options\<lparr>headers := AList.update ''Authorization'' (token c2) (headers options)\<rparr>)),
           c2,
           w2\<lparr>trace := trace w2 @ [(url, options\<lparr>headers := AList.update ''Authorization'' (token c2) (headers options)\<rparr>)]\<rparr>)
      | (False, c2, w2) \<Rightarrow> (Inr r, c2, w2))"
  using assms
  by (subst fetchWithRetry.simps)
     (simp add: fetch_def truthy_str_def fetchWithRetry_retried split: prod.splits bool.splits)

text \<open>
  C1 (as amended). A call through the retry wrapper whose first response has status 401:
  without a username or without a password the response is returned at once, and the
  first request is the only one made. With both, exactly one login is attempted. When
  the login fails, nothing is reissued and the first response is returned. When it
  succeeds with token \<open>t\<close>, the request is reissued exactly once, with \<open>t\<close> as its
  Authorization header, and the outcome of that second request is returned whatever its
  status: no third request is made.
\<close>

theorem fetchWithRetry_on_401:
  assumes "net (trace w) (url, options) = Response r" and "status r = 401"
    and "fetchWithRetry P net url options False c w = (res, c', w')"
  shows
    "(\<not> (truthy_str (username c) \<and> truthy_str (password c)) \<longrightarrow>
        res = Inr r \<and> c' = c \<and> trace w' = trace w @ [(url, options)])
     \<and> (\<forall>u p. username c = Some u \<and> u \<noteq> [] \<and> password c = Some p \<and> p \<noteq> [] \<longrightarrow>
          (case fst (login P net (baseURL c) u p
                       (log_line Log_refresh_attempt (w\<lparr>trace := trace w @ [(url, options)]\<rparr>))) of
             Inl e \<Rightarrow>
               res = Inr r \<and> c' = c \<and>
               trace w' = trace w @ [(url, options), (baseURL c @ ''/api/auth/login'', login_options u p)]
           | Inr t \<Rightarrow>
               res = settle (net (trace w @ [(url, options), (baseURL c @ ''/api/auth/login'', login_options u p)])
                               (url, options\<lparr>headers := AList.update ''Authorization'' t (headers options)\<rparr>)) \<and>
               c' = c\<lparr>token := t\<rparr> \<and>
               trace w' = trace w @
                 [(url, options), (baseURL c @ ''/api/auth/login'', login_options u p),
                  (url, options\<lparr>headers := AList.update ''Authorization'' t (headers options)\<rparr>)]))"
proof (rule conjI; (rule allI)?; (rule allI)?; rule impI)
  assume "\<not> (truthy_str (username c) \<and> truthy_str (password c))"
  with assms show "res = Inr r \<and> c' = c \<and> trace w' = trace w @ [(url, options)]"
    by (auto simp: fetchWithRetry_plain)
next
  fix u p
  assume creds: "username c = Some u \<and> u \<noteq> [] \<and> password c = Some p \<and> p \<noteq> []"
  let ?w1 = "log_line Log_refresh_attempt (w\<lparr>trace := trace w @ [(url, options)]\<rparr>)"
  have tr: "trace (snd (login P net (baseURL c) u p ?w1)) =
      trace w @ [(url, options), (baseURL c @ ''/api/auth/login'', login_options u p)]"
    by (simp add: login_world log_line_def)
  have run: "fetchWithRetry P net url options False c w =
     (case refreshToken P net c (w\<lparr>trace := trace w @ [(url, options)]\<rparr>) of
        (True, c2, w2) \<Rightarrow>
          (settle (net (trace w2) (url, options\<lparr>headers := AList.update ''Authorization'' (token c2) (headers options)\<rparr>)),
           c2,
           w2\<lparr>trace := trace w2 @ [(url, options\<lparr>headers := AList.update ''Authorization'' (token c2) (headers options)\<rparr>)]\<rparr>)
      | (False, c2, w2) \<Rightarrow> (Inr r, c2, w2))"
    using assms(1,2) creds by (intro fetchWithRetry_refresh) auto
  show "case fst (login P net (baseURL c) u p ?w1) of
             Inl e \<Rightarrow>
               res = Inr r \<and> c' = c \<and>
               trace w' = trace w @ [(url, options), (baseURL c @ ''/api/auth/login'', login_options u p)]
           | Inr t \<Rightarrow>
               res = settle (net (trace w @ [(url, options), (baseURL c @ ''/api/auth/login'', login_options u p)])
                               (url, options\<lparr>headers := AList.update ''Authorization'' t (headers options)\<rparr>)) \<and>
               c' = c\<lparr>token := t\<rparr> \<and>
               trace w' = trace w @
                 [(url, options), (baseURL c @ ''/api/auth/login'', login_options u p),
                  (url, options\<lparr>headers := AList.update ''Authorization'' t (headers options)\<rparr>)]"
  proof (cases "fst (login P net (baseURL c) u p ?w1)")
    case (Inl e)
    with assms(3) run creds tr show ?thesis
      by (auto simp: refreshToken_creds log_line_def)
  next
    case (Inr t)
    with assms(3) run creds tr show ?thesis
      by (auto simp: refreshToken_creds log_line_def)
  qed
qed


text \<open>
  On the example server the stale token is refused, the login hands out \<open>fresh\<close>, and the
  reissued request is answered; a client without a password gets the 401 back.
\<close>

theorem fetchWithRetry_on_401_witness:
  "ex_net (trace ex_world) (''http://h/api/fs/get'', get_options ex_client ''/media/metainfo.json'')
     = Response \<lparr>status = 401, text_of = []\<rparr>
   \<and> status \<lparr>status = 401, text_of = []\<rparr> = 401
   \<and> username ex_client = Some ''admin'' \<and> password ex_client = Some ''secret''
   \<and> fst (fetchWithRetry ex_platform ex_net ''http://h/api/fs/get''
             (get_options ex_client ''/media/metainfo.json'') False ex_client ex_world)
       = Inr \<lparr>status = 200, text_of = ex_get_json\<rparr>
   \<and> trace (snd (snd (fetchWithRetry ex_platform ex_net ''http://h/api/fs/get''
             (get_options ex_client ''/media/metainfo.json'') False ex_client ex_world)))
       = [(''http://h/api/fs/get'', get_options ex_client ''/media/metainfo.json''),
          (''http://h/api/auth/login'', login_options ''admin'' ''secret''),
          (''http://h/api/fs/get'',
           (get_options ex_client ''/media/metainfo.json'')\<lparr>headers :=
              [(''Authorization'', ''fresh''), (''Content-Type'', ''application/json'')]\<rparr>)]
   \<and> \<not> (truthy_str (username (ex_client\<lparr>password := None\<rparr>))
          \<and> truthy_str (password (ex_client\<lparr>password := None\<rparr>)))
   \<and> fetchWithRetry ex_platform ex_net ''http://h/api/fs/get''
         (get_options ex_client ''/media/metainfo.json'') False (ex_client\<lparr>password := None\<rparr>) ex_world
       = (Inr \<lparr>status = 401, text_of = []\<rparr>, ex_client\<lparr>password := None\<rparr>,
          ex_world\<lparr>trace := [(''http://h/api/fs/get'', get_options ex_client ''/media/metainfo.json'')]\<rparr>)"
proof -
  let ?b = "ex_client\<lparr>password := None\<rparr>"
  let ?Y = "fetchWithRetry ex_platform ex_net ''http://h/api/fs/get''
         (get_options ex_client ''/media/metainfo.json'') False ?b ex_world"
  have bare: "\<not> (truthy_str (username ?b) \<and> truthy_str (password ?b))"
    by (simp add: truthy_str_def)
  have h4: "?Y = (fst ?Y, fst (snd ?Y), snd (snd ?Y))"
    by simp
  let ?o = "get_options ex_client ''/media/metainfo.json''"
  let ?X = "fetchWithRetry ex_platform ex_net ''http://h/api/fs/get'' ?o False ex_client ex_world"
  have h1: "ex_net (trace ex_world) (''http://h/api/fs/get'', ?o) = Response \<lparr>status = 401, text_of = []\<rparr>"
    by (simp add: ex_defs client_defs handler_defs)
  have h2: "status \<lparr>status = 401, text_of = []\<rparr> = 401"
    by simp
  have h3: "?X = (fst ?X, fst (snd ?X), snd (snd ?X))"
    by simp
  have creds: "username ex_client = Some ''admin'' \<and> ''admin'' \<noteq> [] \<and>
      password ex_client = Some ''secret'' \<and> ''secret'' \<noteq> []"
    by (simp add: ex_defs handler_defs)
  have lg: "fst (login ex_platform ex_net (baseURL ex_client) ''admin'' ''secret''
      (log_line Log_refresh_attempt (ex_world\<lparr>trace := trace ex_world @ [(''http://h/api/fs/get'', ?o)]\<rparr>)))
      = Inr ''fresh''"
    by (simp add: ex_defs client_defs handler_defs)
  have "case fst (login ex_platform ex_net (baseURL ex_client) ''admin'' ''secret''
      (log_line Log_refresh_attempt (ex_world\<lparr>trace := trace ex_world @ [(''http://h/api/fs/get'', ?o)]\<rparr>))) of
             Inl e \<Rightarrow>
               fst ?X = Inr \<lparr>status = 401, text_of = []\<rparr> \<and> fst (snd ?X) = ex_client \<and>
               trace (snd (snd ?X)) = trace ex_world @ [(''http://h/api/fs/get'', ?o), (baseURL ex_client @ ''/api/auth/login'', login_options ''admin'' ''secret'')]
           | Inr t \<Rightarrow>
               fst ?X = settle (ex_net (trace ex_world @ [(''http://h/api/fs/get'', ?o), (baseURL ex_client @ ''/api/auth/login'', login_options ''admin'' ''secret'')])
                               (''http://h/api/fs/get'', ?o\<lparr>headers := AList.update ''Authorization'' t (headers ?o)\<rparr>)) \<and>
               fst (snd ?X) = ex_client\<lparr>token := t\<rparr> \<and>
               trace (snd (snd ?X)) = trace ex_world @
                 [(''http://h/api/fs/get'', ?o), (baseURL ex_client @ ''/api/auth/login'', login_options ''admin'' ''secret''),
                  (''http://h/api/fs/get'', ?o\<lparr>headers := AList.update ''Authorization'' t (headers ?o)\<rparr>)]"
    using fetchWithRetry_on_401 [OF h1 h2 h3] creds by blast
  moreover have "fst ?Y = Inr \<lparr>status = 401, text_of = []\<rparr> \<and> fst (snd ?Y) = ?b \<and>
      trace (snd (snd ?Y)) = trace ex_world @ [(''http://h/api/fs/get'', ?o)]"
    using fetchWithRetry_on_401 [OF h1 h2 h4] bare by blast
  moreover have "snd (snd ?Y) = ex_world\<lparr>trace := [(''http://h/api/fs/get'', ?o)]\<rparr>"
    using h1 bare by (simp add: fetchWithRetry_plain ex_world_def)
  ultimately show ?thesis
    using lg h1 creds bare by (simp add: ex_defs client_defs handler_defs prod_eq_iff)
qed

text \<open>
  C1 as stated fails where the login itself fails: username and password are configured
  and the first response is 401, yet the only request after the first is the login, and
  the first response is what the caller gets.
\<close>

theorem fetchWithRetry_login_fails_counterexample:
  "truthy_str (username ex_client) \<and> truthy_str (password ex_client)
   \<and> ex_net_401 (trace ex_world) (''http://h/api/fs/get'', get_options ex_client ''/media/metainfo.json'')
       = Response \<lparr>status = 401, text_of = []\<rparr>
   \<and> fst (fetchWithRetry ex_platform ex_net_401 ''http://h/api/fs/get''
             (get_options ex_client ''/media/metainfo.json'') False ex_client ex_world)
       = Inr \<lparr>status = 401, text_of = []\<rparr>
   \<and> trace (snd (snd (fetchWithRetry ex_platform ex_net_401 ''http://h/api/fs/get''
             (get_options ex_client ''/media/metainfo.json'') False ex_client ex_world)))
       = [(''http://h/api/fs/get'', get_options ex_client ''/media/metainfo.json''),
          (''http://h/api/auth/login'', login_options ''admin'' ''secret'')]"
  by (simp add: fetchWithRetry.simps ex_defs client_defs handler_defs)


section \<open>The path of the document\<close>







section \<open>Validation\<close>

lemma POST_missing_params:
  assumes "cookie_auth request = Some ai" and "truthy_str (auth_username ai)"
    and "json_body request = Some b" and "destructure b = Inr f"
    and "\<not> truthy (folder f) \<or> \<not> truthy (tmdbId f)"
  shows "POST P net config now request w = (NextResponse (ErrorJson MissingParams) 400, w)"
  using assms by (auto simp: POST_def POST_try_def validate_def)

lemma destructure_object:
  "destructure (JObj ps) =
     Inr \<lparr>folder = (case map_of ps ''folder'' of None \<Rightarrow> JUndefined | Some v \<Rightarrow> v),
          tmdbId = (case map_of ps ''tmdbId'' of None \<Rightarrow> JUndefined | Some v \<Rightarrow> v),
          title = (case map_of ps ''title'' of None \<Rightarrow> JUndefined | Some v \<Rightarrow> v),
          posterPath = (case map_of ps ''posterPath'' of None \<Rightarrow> JUndefined | Some v \<Rightarrow> v),
          releaseDate = (case map_of ps ''releaseDate'' of None \<Rightarrow> JUndefined | Some v \<Rightarrow> v),
          overview = (case map_of ps ''overview'' of None \<Rightarrow> JUndefined | Some v \<Rightarrow> v),
          voteAverage = (case map_of ps ''voteAverage'' of None \<Rightarrow> JUndefined | Some v \<Rightarrow> v),
          mediaType = (case map_of ps ''mediaType'' of None \<Rightarrow> JUndefined | Some v \<Rightarrow> v)\<rparr>"
  by (simp add: destructure_def get_prop_opt_def)

text \<open>
  A body that is the JSON text \<^verbatim>\<open>null\<close> is not an object with fields: destructuring it
  throws, and the outer \<^verbatim>\<open>catch\<close> answers.
\<close>

lemma POST_null_body:
  assumes "cookie_auth request = Some ai" and "truthy_str (auth_username ai)"
    and "json_body request = Some JNull"
  shows "POST P net config now request w =
     (NextResponse (ErrorDetailsJson CorrectFailed TypeError) 500, log_line (Error_correct TypeError) w)"
  using assms by (simp add: POST_def POST_try_def validate_def destructure_def)

lemma destructure_not_null:
  assumes "b \<noteq> JNull" and "b \<noteq> JUndefined"
  shows "\<exists>f. destructure b = Inr f \<and> folder f = get_prop_opt b ''folder''
     \<and> tmdbId f = get_prop_opt b ''tmdbId''"
  using assms by (cases b) (simp_all add: destructure_def get_prop_opt_def)

lemma lacking_field_undefined: "\<not> has_field b k \<Longrightarrow> get_prop_opt b k = JUndefined"
  by (cases b) (auto simp: get_prop_opt_def)

text \<open>
  C8 (as amended). An authenticated request whose JSON body is any value but \<^verbatim>\<open>null\<close> (an
  object, an array, a string, a number or a boolean; \<^verbatim>\<open>undefined\<close> is no JSON value) and
  has no \<open>folder\<close> field, or no \<open>tmdbId\<close> field, is answered with the 400 response for
  missing parameters, whatever the configuration and the remote side are, and the world
  is left as it was: no request has been made, and neither the cache nor any document
  has been touched.
\<close>

theorem missing_field_rejected_before_any_call:
  assumes "cookie_auth request = Some ai" and "truthy_str (auth_username ai)"
    and "json_body request = Some b" and "b \<noteq> JNull" and "b \<noteq> JUndefined"
    and "\<not> has_field b ''folder'' \<or> \<not> has_field b ''tmdbId''"
  shows "POST P net config now request w = (NextResponse (ErrorJson MissingParams) 400, w)"
proof -
  from destructure_not_null [OF assms(4,5)] obtain f where
    f: "destructure b = Inr f" "folder f = get_prop_opt b ''folder''" "tmdbId f = get_prop_opt b ''tmdbId''"
    by blast
  from assms(6) f(2,3) have "\<not> truthy (folder f) \<or> \<not> truthy (tmdbId f)"
    by (auto simp: lacking_field_undefined)
  then show ?thesis
    by (rule POST_missing_params [OF assms(1,2,3) f(1)])
qed

text \<open>An object without \<open>folder\<close>, and a body that is a string.\<close>

theorem missing_field_rejected_before_any_call_witness:
  "cookie_auth \<lparr>cookie_auth = Some \<lparr>auth_username = Some ''alice''\<rparr>,
                json_body = Some (JObj [(''tmdbId'', JNum 603), (''title'', JStr ''The Matrix'')])\<rparr>
     = Some \<lparr>auth_username = Some ''alice''\<rparr>
   \<and> truthy_str (auth_username \<lparr>auth_username = Some ''alice''\<rparr>)
   \<and> \<not> has_field (JObj [(''tmdbId'', JNum 603), (''title'', JStr ''The Matrix'')]) ''folder''
   \<and> POST ex_platform ex_net ex_config 1000
        \<lparr>cookie_auth = Some \<lparr>auth_username = Some ''alice''\<rparr>,
         json_body = Some (JObj [(''tmdbId'', JNum 603), (''title'', JStr ''The Matrix'')])\<rparr>
        ex_world_cached
       = (NextResponse (ErrorJson MissingParams) 400, ex_world_cached)
   \<and> \<not> has_field (JStr ''Movie'') ''folder''
   \<and> POST ex_platform ex_net ex_config 1000
        \<lparr>cookie_auth = Some \<lparr>auth_username = Some ''alice''\<rparr>, json_body = Some (JStr ''Movie'')\<rparr>
        ex_world_cached
       = (NextResponse (ErrorJson MissingParams) 400, ex_world_cached)"
  using missing_field_rejected_before_any_call
    [of "\<lparr>cookie_auth = Some \<lparr>auth_username = Some ''alice''\<rparr>,
          json_body = Some (JObj [(''tmdbId'', JNum 603), (''title'', JStr ''The Matrix'')])\<rparr>"
        "\<lparr>auth_username = Some ''alice''\<rparr>"
        "JObj [(''tmdbId'', JNum 603), (''title'', JStr ''The Matrix'')]"
        ex_platform ex_net ex_config 1000 ex_world_cached]
    missing_field_rejected_before_any_call
    [of "\<lparr>cookie_auth = Some \<lparr>auth_username = Some ''alice''\<rparr>, json_body = Some (JStr ''Movie'')\<rparr>"
        "\<lparr>auth_username = Some ''alice''\<rparr>"
        "JStr ''Movie''"
        ex_platform ex_net ex_config 1000 ex_world_cached]
  by (simp add: truthy_str_def)

text \<open>
  C8 as stated fails for the body \<^verbatim>\<open>null\<close>. It has neither field, yet the handler does
  not answer 400: the destructuring of line 29 throws, and the \<^verbatim>\<open>catch\<close> of lines 124 to
  130 answers 500.
\<close>

theorem null_body_counterexample:
  "cookie_auth ex_request_null = Some \<lparr>auth_username = Some ''alice''\<rparr>
   \<and> truthy_str (auth_username \<lparr>auth_username = Some ''alice''\<rparr>)
   \<and> json_body ex_request_null = Some JNull
   \<and> \<not> has_field JNull ''folder'' \<and> \<not> has_field JNull ''tmdbId''
   \<and> POST ex_platform ex_net ex_config 1000 ex_request_null ex_world
       = (NextResponse (ErrorDetailsJson CorrectFailed TypeError) 500,
          log_line (Error_correct TypeError) ex_world)
   \<and> NextResponse (ErrorDetailsJson CorrectFailed TypeError) 500
       \<noteq> NextResponse (ErrorJson MissingParams) 400"
  by (simp add: ex_request_null_def truthy_str_def POST_def POST_try_def validate_def destructure_def)

text \<open>
  C10. Presence is tested by truthiness: an authenticated request whose body has a
  \<open>folder\<close> or a \<open>tmdbId\<close> that is falsy gets the same 400 response as one that lacks the
  field, and the world is left as it was. The empty string and the number 0 are falsy,
  so a catalog identifier 0 is never accepted.
\<close>

theorem falsy_field_rejected:
  assumes "cookie_auth request = Some ai" and "truthy_str (auth_username ai)"
    and "json_body request = Some (JObj ps)"
    and "map_of ps ''folder'' = Some v \<or> map_of ps ''tmdbId'' = Some v"
    and "\<not> truthy v"
  shows "POST P net config now request w = (NextResponse (ErrorJson MissingParams) 400, w)
     \<and> \<not> truthy (JStr []) \<and> \<not> truthy (JNum 0)"
  using assms(4,5)
  by (auto intro!: POST_missing_params [OF assms(1,2,3) destructure_object])

theorem falsy_field_rejected_witness:
  "cookie_auth \<lparr>cookie_auth = Some \<lparr>auth_username = Some ''alice''\<rparr>,
                json_body = Some (JObj [(''folder'', JStr ''Movie''), (''tmdbId'', JNum 0)])\<rparr>
     = Some \<lparr>auth_username = Some ''alice''\<rparr>
   \<and> truthy_str (auth_username \<lparr>auth_username = Some ''alice''\<rparr>)
   \<and> map_of [(''folder'', JStr ''Movie''), (''tmdbId'', JNum 0)] ''tmdbId'' = Some (JNum 0)
   \<and> \<not> truthy (JNum 0)
   \<and> POST ex_platform ex_net ex_config 1000
        \<lparr>cookie_auth = Some \<lparr>auth_username = Some ''alice''\<rparr>,
         json_body = Some (JObj [(''folder'', JStr ''Movie''), (''tmdbId'', JNum 0)])\<rparr>
        ex_world_cached
       = (NextResponse (ErrorJson MissingParams) 400, ex_world_cached)"
  using falsy_field_rejected
    [of "\<lparr>cookie_auth = Some \<lparr>auth_username = Some ''alice''\<rparr>,
          json_body = Some (JObj [(''folder'', JStr ''Movie''), (''tmdbId'', JNum 0)])\<rparr>"
        "\<lparr>auth_username = Some ''alice''\<rparr>"
        "[(''folder'', JStr ''Movie''), (''tmdbId'', JNum 0)]" "JNum 0"
        ex_platform ex_net ex_config 1000 ex_world_cached]
  by (simp add: truthy_str_def)


section \<open>What a call of the client changes\<close>

lemma fetchWithRetry_first:
  "fetchWithRetry P net url options False c w =
     (case net (trace w) (url, options) of
        Rejected \<Rightarrow> (Inl NetworkError, c, w\<lparr>trace := trace w @ [(url, options)]\<rparr>)
      | Response r \<Rightarrow>
          if status r = 401 \<and> truthy_str (username c) \<and> truthy_str (password c)
          then (case refreshToken P net c (w\<lparr>trace := trace w @ [(url, options)]\<rparr>) of
                  (True, c2, w2) \<Rightarrow>
                    (settle (net (trace w2)
                       (url, options\<lparr>headers := AList.update ''Authorization'' (token c2) (headers options)\<rparr>)),
                     c2,
                     w2\<lparr>trace := trace w2 @
                       [(url, options\<lparr>headers := AList.update ''Authorization'' (token c2) (headers options)\<rparr>)]\<rparr>)
                | (False, c2, w2) \<Rightarrow> (Inr r, c2, w2))
          else (Inr r, c, w\<lparr>trace := trace w @ [(url, options)]\<rparr>))"
  by (subst fetchWithRetry.simps)
     (simp add: fetch_def fetchWithRetry_retried split: fetch_outcome.splits prod.splits bool.splits)

lemma refreshToken_effect:
  assumes "refreshToken P net c w = (b, c', w')"
  shows "same_store w w' \<and> baseURL c' = baseURL c \<and>
     (\<exists>new. trace w' = trace w @ new \<and> (\<forall>q \<in> set new. http_method (snd q) = ''POST''))"
  using assms
  by (auto simp: refreshToken_def same_store_def log_line_def login_world login_options_def
      split: option.splits if_splits prod.splits sum.splits
      dest!: arg_cong [where f = snd and x = "login _ _ _ _ _ _"])

lemma fetchWithRetry_effect:
  assumes "fetchWithRetry P net url options False c w = (res, c', w')"
  shows "same_store w w' \<and> baseURL c' = baseURL c \<and>
     (\<exists>new. trace w' = trace w @ (url, options) # new \<and>
        (\<forall>q \<in> set new. http_method (snd q) = ''POST'' \<or>
           (http_method (snd q) = http_method options \<and> body (snd q) = body options)))"
proof (cases "net (trace w) (url, options)")
  case Rejected
  with assms show ?thesis
    by (auto simp: fetchWithRetry_first same_store_def)
next
  case (Response r)
  show ?thesis
  proof (cases "status r = 401 \<and> truthy_str (username c) \<and> truthy_str (password c)")
    case False
    with assms Response show ?thesis
      by (auto simp: fetchWithRetry_first same_store_def)
  next
    case True
    obtain b c2 w2 where rt: "refreshToken P net c (w\<lparr>trace := trace w @ [(url, options)]\<rparr>) = (b, c2, w2)"
      by (metis prod_cases3)
    from refreshToken_effect [OF rt] obtain new where
      st: "same_store (w\<lparr>trace := trace w @ [(url, options)]\<rparr>) w2" and bu: "baseURL c2 = baseURL c"
      and tr: "trace w2 = trace w @ (url, options) # new" and po: "\<forall>q \<in> set new. http_method (snd q) = ''POST''"
      by auto
    show ?thesis
    proof (cases b)
      case False
      with assms Response True rt have "w' = w2" "c' = c2"
        by (auto simp: fetchWithRetry_first)
      with st bu tr po show ?thesis
        by (auto simp: same_store_def)
    next
      case b: True
      let ?o = "options\<lparr>headers := AList.update ''Authorization'' (token c2) (headers options)\<rparr>"
      from assms Response True rt b have "w' = w2\<lparr>trace := trace w2 @ [(url, ?o)]\<rparr>" "c' = c2"
        by (auto simp: fetchWithRetry_first)
      with st bu tr po show ?thesis
        by (auto simp: same_store_def)
    qed
  qed
qed


lemma refreshDirectory_never_throws:
  "fst (refreshDirectory P net path c w) = Inr ()"
  by (simp add: refreshDirectory_def refreshDirectory_try_def split: prod.splits sum.splits)

lemma refreshDirectory_effect:
  assumes "refreshDirectory P net path c w = (res, c', w')"
  shows "same_store w w' \<and> baseURL c' = baseURL c \<and>
     (\<exists>new. trace w' = trace w @ new \<and> (\<forall>q \<in> set new. http_method (snd q) = ''POST''))"
proof -
  obtain r1 c1 w1 where fr: "fetchWithRetry P net (baseURL c @ ''/api/fs/list'')
      (list_options c path True 1 1) False c w = (r1, c1, w1)"
    by (metis prod_cases3)
  from fetchWithRetry_effect [OF fr] obtain new where
    st: "same_store w w1" and bu: "baseURL c1 = baseURL c"
    and tr: "trace w1 = trace w @ (baseURL c @ ''/api/fs/list'', list_options c path True 1 1) # new"
    and po: "\<forall>q \<in> set new. http_method (snd q) = ''POST''"
    by (auto simp: list_options_def)
  from assms fr have "c' = c1 \<and> same_store w1 w' \<and> trace w' = trace w1"
    by (auto simp: refreshDirectory_def refreshDirectory_try_def same_store_def log_line_def
        split: sum.splits if_splits)
  with st bu tr po show ?thesis
    by (auto simp: same_store_def list_options_def)
qed

lemma uploadFile_effect:
  assumes "uploadFile P net path content c w = (res, c', w')"
  shows "same_store w w' \<and>
     (\<exists>new. trace w' = trace w @ (baseURL c @ ''/api/fs/put'', put_options P c path content) # new \<and>
        (\<forall>q \<in> set new. http_method (snd q) = ''PUT'' \<longrightarrow> body (snd q) = TextBody content))"
proof -
  obtain r1 c1 w1 where fr: "fetchWithRetry P net (baseURL c @ ''/api/fs/put'')
      (put_options P c path content) False c w = (r1, c1, w1)"
    by (metis prod_cases3)
  from fetchWithRetry_effect [OF fr] obtain new where
    st: "same_store w w1"
    and tr: "trace w1 = trace w @ (baseURL c @ ''/api/fs/put'', put_options P c path content) # new"
    and raw: "\<forall>q \<in> set new. http_method (snd q) = ''POST'' \<or>
        (http_method (snd q) = http_method (put_options P c path content) \<and>
         body (snd q) = body (put_options P c path content))"
    by blast
  from raw have po: "\<forall>q \<in> set new. http_method (snd q) = ''PUT'' \<longrightarrow> body (snd q) = TextBody content"
    by (auto simp: put_options_def)
  show ?thesis
  proof (cases "\<exists>r. r1 = Inr r \<and> ok r")
    case False
    with assms fr have "w' = w1"
      by (auto simp: uploadFile_def split: sum.splits if_splits)
    with st tr po show ?thesis
      by auto
  next
    case True
    then obtain r where r: "r1 = Inr r" "ok r"
      by auto
    with assms fr have rd: "refreshDirectory P net (dir_of path) c1 w1 = (res, c', w')"
      by (simp add: uploadFile_def)
    from refreshDirectory_effect [OF rd] obtain more where
      st2: "same_store w1 w'" and tr2: "trace w' = trace w1 @ more"
      and po2: "\<forall>q \<in> set more. http_method (snd q) = ''POST''"
      by auto
    from st st2 have "same_store w w'"
      by (simp add: same_store_def)
    moreover from tr tr2 have "trace w' = trace w @ (baseURL c @ ''/api/fs/put'', put_options P c path content) # (new @ more)"
      by simp
    moreover from po po2 have "\<forall>q \<in> set (new @ more). http_method (snd q) = ''PUT'' \<longrightarrow> body (snd q) = TextBody content"
      by auto
    ultimately show ?thesis
      by blast
  qed
qed

lemma uploadFile_put_ok:
  assumes "fetchWithRetry P net (baseURL c @ ''/api/fs/put'') (put_options P c path content) False c w
      = (Inr r, c1, w1)" and "ok r"
  shows "uploadFile P net path content c w = refreshDirectory P net (dir_of path) c1 w1"
  using assms by (simp add: uploadFile_def)

section \<open>The correction\<close>

lemma POST_validated:
  assumes "validate request config = Continue (f, olc)"
  shows "POST P net config now request w =
     (case correct P net olc f now w of
        (Inr resp, w1) \<Rightarrow> (resp, w1)
      | (Inl e, w1) \<Rightarrow> (NextResponse (ErrorDetailsJson CorrectFailed e) 500, log_line (Error_correct e) w1))"
  using assms by (simp add: POST_def POST_try_def)

lemma validate_Continue:
  assumes "validate request config = Continue (f, olc)"
  shows "\<exists>b. json_body request = Some b \<and> destructure b = Inr f"
  using assms
  by (auto simp: validate_def split: option.splits if_splits sum.splits)

lemma saveCorrection_effect:
  assumes "saveCorrection P net rootPath f now a c w = (res, w')"
  shows "docs w' = docs (set_folder P a (folder f) (folderEntry f now) w)
     \<and> protos w' = protos (set_folder P a (folder f) (folderEntry f now) w)
     \<and> next_ref w' = next_ref w
     \<and> (case res of
          Inl e \<Rightarrow> cache w' = cache w
        | Inr resp \<Rightarrow> resp = NextResponse SuccessJson 200 \<and> cache w' = (cache w)(rootPath \<mapsto> a))
     \<and> (\<exists>new. trace w' = trace w @
            (baseURL c @ ''/api/fs/put'',
             put_options P c (metainfoPath rootPath) (JSON_stringify P (docs w' a))) # new \<and>
          (\<forall>q \<in> set new. http_method (snd q) = ''PUT'' \<longrightarrow>
             body (snd q) = TextBody (JSON_stringify P (docs w' a))))"
proof -
  let ?w1 = "set_folder P a (folder f) (folderEntry f now) w"
  obtain r c2 w2 where up: "uploadFile P net (metainfoPath rootPath) (JSON_stringify P (docs ?w1 a)) c ?w1 = (r, c2, w2)"
    by (metis prod_cases3)
  from uploadFile_effect [OF up] obtain new where
    st: "same_store ?w1 w2"
    and tr: "trace w2 = trace ?w1 @ (baseURL c @ ''/api/fs/put'',
        put_options P c (metainfoPath rootPath) (JSON_stringify P (docs ?w1 a))) # new"
    and po: "\<forall>q \<in> set new. http_method (snd q) = ''PUT'' \<longrightarrow>
        body (snd q) = TextBody (JSON_stringify P (docs ?w1 a))"
    by auto
  have w1: "trace ?w1 = trace w" "cache ?w1 = cache w" "next_ref ?w1 = next_ref w"
    by (simp_all add: set_folder_def)
  show ?thesis
  proof (cases r)
    case (Inl e)
    with assms up have "res = Inl e" "w' = w2"
      by (simp_all add: saveCorrection_def Let_def)
    with st tr po w1 show ?thesis
      by (auto simp: same_store_def)
  next
    case (Inr u)
    with assms up have "res = Inr (NextResponse SuccessJson 200)"
      "w' = setCachedMetaInfo rootPath a (invalidateMetaInfoCache rootPath w2)"
      by (simp_all add: saveCorrection_def Let_def)
    with st tr po w1 show ?thesis
      by (auto simp: same_store_def setCachedMetaInfo_def invalidateMetaInfoCache_def)
  qed
qed



lemma set_folder_own:
  "to_string P k \<noteq> ''__proto__'' \<or> folders (docs w a) ''__proto__'' \<noteq> None \<Longrightarrow>
   folders (docs (set_folder P a k e w) a) (to_string P k) = Some e"
  by (auto simp: set_folder_def)

lemma set_folder_proto:
  "to_string P k = ''__proto__'' \<Longrightarrow> folders (docs w a) ''__proto__'' = None \<Longrightarrow>
   docs (set_folder P a k e w) = docs w \<and> protos (set_folder P a k e w) a = Some e"
  by (simp add: set_folder_def)

text \<open>How the handler comes by the document it corrects: from the cache, or by reading it.\<close>

lemma correct_loaded:
  assumes "cache w (rootPath_of olc) = Some a \<and> c1 = new_client olc \<and> w1 = w
     \<or> cache w (rootPath_of olc) = None \<and>
       readMetaInfo_try P net (rootPath_of olc) (new_client olc) w = (Inr (Loaded a), c1, w1)"
  shows "correct P net olc f now w = saveCorrection P net (rootPath_of olc) f now a c1 w1"
  using assms by (auto simp: correct_def getCachedMetaInfo_def)

lemma correct_success:
  assumes "correct P net olc f now w = (Inr (NextResponse SuccessJson 200), w')"
  shows "\<exists>a c1 w1. saveCorrection P net (rootPath_of olc) f now a c1 w1
      = (Inr (NextResponse SuccessJson 200), w')"
  using assms
  by (auto simp: correct_def split: option.splits prod.splits sum.splits loaded.splits)


lemma POST_loaded:
  assumes "validate request config = Continue (f, olc)"
    and "cache w (rootPath_of olc) = Some a \<and> c1 = new_client olc \<and> w1 = w
     \<or> cache w (rootPath_of olc) = None \<and>
       readMetaInfo_try P net (rootPath_of olc) (new_client olc) w = (Inr (Loaded a), c1, w1)"
  shows "POST P net config now request w =
     (case saveCorrection P net (rootPath_of olc) f now a c1 w1 of
        (Inr resp, w2) \<Rightarrow> (resp, w2)
      | (Inl e, w2) \<Rightarrow> (NextResponse (ErrorDetailsJson CorrectFailed e) 500, log_line (Error_correct e) w2))"
  using assms(1) correct_loaded [OF assms(2)] by (simp add: POST_validated)

text \<open>
  A successful correction of a folder whose name is not \<open>__proto__\<close>: the document cached
  for the root is the document that was corrected, and its entry for the folder is the
  object built at lines 98 to 108 from the fields of the request body alone.
\<close>

lemma POST_success_entry:
  assumes "validate request config = Continue (f, olc)"
    and "POST P net config now request w = (NextResponse SuccessJson 200, w')"
    and "to_string P (folder f) \<noteq> ''__proto__''"
  shows "\<exists>a. cache w' (rootPath_of olc) = Some a
     \<and> folders (docs w' a) (to_string P (folder f)) = Some (folderEntry f now)"
proof -
  from assms(1,2) have "correct P net olc f now w = (Inr (NextResponse SuccessJson 200), w')"
    by (auto simp: POST_validated split: prod.splits sum.splits)
  then obtain a c1 w1 where
    sv: "saveCorrection P net (rootPath_of olc) f now a c1 w1 = (Inr (NextResponse SuccessJson 200), w')"
    using correct_success by blast
  from saveCorrection_effect [OF sv] have
    "docs w' = docs (set_folder P a (folder f) (folderEntry f now) w1)"
    "cache w' (rootPath_of olc) = Some a"
    by auto
  with assms(3) show ?thesis
    by (simp add: set_folder_own)
qed

text \<open>
  A correction of the folder \<open>__proto__\<close>, on a document that has no own entry of that
  name: whether the upload succeeds or not, the own entries of the document are all as
  they were, and the entry has become the prototype of \<^verbatim>\<open>folders\<close>.
\<close>

lemma POST_proto_stores_nothing:
  assumes "validate request config = Continue (f, olc)"
    and "POST P net config now request w = (resp, w')"
    and "cache w (rootPath_of olc) = Some a \<and> c1 = new_client olc \<and> w1 = w
     \<or> cache w (rootPath_of olc) = None \<and>
       readMetaInfo_try P net (rootPath_of olc) (new_client olc) w = (Inr (Loaded a), c1, w1)"
    and "to_string P (folder f) = ''__proto__''"
    and "folders (docs w1 a) ''__proto__'' = None"
  shows "docs w' = docs w1 \<and> protos w' a = Some (folderEntry f now)"
proof -
  obtain res w2 where sv: "saveCorrection P net (rootPath_of olc) f now a c1 w1 = (res, w2)"
    by (metis prod.exhaust)
  from assms(2) sv have "docs w' = docs w2" "protos w' = protos w2"
    by (auto simp: POST_loaded [OF assms(1,3)] log_line_def split: sum.splits)
  with saveCorrection_effect [OF sv] set_folder_proto [OF assms(4,5)] show ?thesis
    by simp
qed

text \<open>
  C3 fails for the folder named \<open>__proto__\<close>. The document is read from the remote side
  and has no entries. The handler answers with the success response and caches the
  document, but the document has no entry for the folder: line 98 has made the entry
  the prototype of \<^verbatim>\<open>folders\<close> instead, and the one PUT of the call carries the
  serialization of the document without entries.
\<close>

theorem proto_correction_reports_success_without_entry:
  "json_body ex_request_proto
     = Some (JObj [(''folder'', JStr ''__proto__''), (''tmdbId'', JNum 603),
                   (''title'', JStr ''The Matrix''), (''mediaType'', JStr ''movie'')])
   \<and> fst (POST ex_platform ex_net ex_config 1000 ex_request_proto ex_world) = NextResponse SuccessJson 200
   \<and> cache (snd (POST ex_platform ex_net ex_config 1000 ex_request_proto ex_world)) ''/media'' = Some 0
   \<and> folders (docs (snd (POST ex_platform ex_net ex_config 1000 ex_request_proto ex_world)) 0) ''__proto__''
       = None
   \<and> protos (snd (POST ex_platform ex_net ex_config 1000 ex_request_proto ex_world)) 0
       = Some (JObj [(''tmdb_id'', JNum 603),
                     (''title'', JStr ''The Matrix''),
                     (''poster_path'', JUndefined),
                     (''release_date'', JStr []),
                     (''overview'', JStr []),
                     (''vote_average'', JNum 0),
                     (''media_type'', JStr ''movie''),
                     (''last_updated'', JNum 1000),
                     (''failed'', JBool False)])
   \<and> map (\<lambda>q. body (snd q))
         (filter (\<lambda>q. http_method (snd q) = ''PUT'')
            (trace (snd (POST ex_platform ex_net ex_config 1000 ex_request_proto ex_world))))
       = [TextBody (JSON_stringify ex_platform \<lparr>folders = Map.empty\<rparr>)]"
  by (simp add: fetchWithRetry.simps ex_defs handler_defs client_defs)




section \<open>The advisory refresh\<close>

lemma refreshDirectory_logs:
  "refreshDirectory P net path c w =
     (case fetchWithRetry P net (baseURL c @ ''/api/fs/list'') (list_options c path True 1 1) False c w of
        (Inl e, c1, w1) \<Rightarrow> (Inr (), c1, log_line (Warn_refresh_error e) w1)
      | (Inr r, c1, w1) \<Rightarrow>
          (Inr (), c1, if ok r then w1 else log_line (Warn_refresh_status (status r)) w1))"
  by (simp add: refreshDirectory_def refreshDirectory_try_def split: prod.splits sum.splits)

text \<open>
  C5. \<open>refreshDirectory\<close> never throws: a request that cannot be made and a response
  with an error status are both written to the console as a warning, and the method
  returns. So an \<open>uploadFile\<close> whose PUT is answered with a 2xx status returns normally
  whatever happens to the refresh after it, and so does the correction that called it:
  the handler answers with the success response.
\<close>

theorem upload_succeeds_whatever_the_refresh_does:
  "fst (refreshDirectory P net path c w) = Inr ()
   \<and> (fst (fetchWithRetry P net (baseURL c @ ''/api/fs/list'') (list_options c path True 1 1) False c w) = Inl e
        \<longrightarrow> console (snd (snd (refreshDirectory P net path c w))) =
              console (snd (snd (fetchWithRetry P net (baseURL c @ ''/api/fs/list'')
                                   (list_options c path True 1 1) False c w)))
              @ [Warn_refresh_error e])
   \<and> (fst (fetchWithRetry P net (baseURL c @ ''/api/fs/list'') (list_options c path True 1 1) False c w) = Inr r
        \<and> \<not> ok r
        \<longrightarrow> console (snd (snd (refreshDirectory P net path c w))) =
              console (snd (snd (fetchWithRetry P net (baseURL c @ ''/api/fs/list'')
                                   (list_options c path True 1 1) False c w)))
              @ [Warn_refresh_status (status r)])
   \<and> (fetchWithRetry P net (baseURL c @ ''/api/fs/put'') (put_options P c path content) False c w
          = (Inr r', c1, w1) \<and> ok r'
        \<longrightarrow> fst (uploadFile P net path content c w) = Inr ())
   \<and> (validate request config = Continue (f, olc)
        \<and> (cache w0 (rootPath_of olc) = Some a \<and> c2 = new_client olc \<and> w2 = w0
           \<or> cache w0 (rootPath_of olc) = None \<and>
             readMetaInfo_try P net (rootPath_of olc) (new_client olc) w0 = (Inr (Loaded a), c2, w2))
        \<and> fetchWithRetry P net (baseURL c2 @ ''/api/fs/put'')
             (put_options P c2 (metainfoPath (rootPath_of olc))
                (JSON_stringify P (docs (set_folder P a (folder f) (folderEntry f now) w2) a)))
             False c2 (set_folder P a (folder f) (folderEntry f now) w2)
            = (Inr r'', c3, w3)
        \<and> ok r''
        \<longrightarrow> fst (POST P net config now request w0) = NextResponse SuccessJson 200)"
proof -
  have never: "\<And>d c w. fst (refreshDirectory P net d c w) = Inr ()"
    by (rule refreshDirectory_never_throws)
  have a: "fst (fetchWithRetry P net (baseURL c @ ''/api/fs/list'') (list_options c path True 1 1) False c w) = Inl e
        \<longrightarrow> console (snd (snd (refreshDirectory P net path c w))) =
              console (snd (snd (fetchWithRetry P net (baseURL c @ ''/api/fs/list'')
                                   (list_options c path True 1 1) False c w)))
              @ [Warn_refresh_error e]"
    by (simp add: refreshDirectory_logs log_line_def split: prod.splits)
  have b: "fst (fetchWithRetry P net (baseURL c @ ''/api/fs/list'') (list_options c path True 1 1) False c w) = Inr r
        \<and> \<not> ok r
        \<longrightarrow> console (snd (snd (refreshDirectory P net path c w))) =
              console (snd (snd (fetchWithRetry P net (baseURL c @ ''/api/fs/list'')
                                   (list_options c path True 1 1) False c w)))
              @ [Warn_refresh_status (status r)]"
    by (simp add: refreshDirectory_logs log_line_def split: prod.splits)
  have u: "fetchWithRetry P net (baseURL c @ ''/api/fs/put'') (put_options P c path content) False c w
          = (Inr r', c1, w1) \<and> ok r'
        \<longrightarrow> fst (uploadFile P net path content c w) = Inr ()"
    by (simp add: uploadFile_put_ok never)
  have p: "fst (POST P net config now request w0) = NextResponse SuccessJson 200"
    if v: "validate request config = Continue (f, olc)"
    and l: "cache w0 (rootPath_of olc) = Some a \<and> c2 = new_client olc \<and> w2 = w0
           \<or> cache w0 (rootPath_of olc) = None \<and>
             readMetaInfo_try P net (rootPath_of olc) (new_client olc) w0 = (Inr (Loaded a), c2, w2)"
    and put: "fetchWithRetry P net (baseURL c2 @ ''/api/fs/put'')
             (put_options P c2 (metainfoPath (rootPath_of olc))
                (JSON_stringify P (docs (set_folder P a (folder f) (folderEntry f now) w2) a)))
             False c2 (set_folder P a (folder f) (folderEntry f now) w2)
            = (Inr r'', c3, w3)"
    and ok: "ok r''"
  proof -
    let ?w = "set_folder P a (folder f) (folderEntry f now) w2"
    have "fst (uploadFile P net (metainfoPath (rootPath_of olc)) (JSON_stringify P (docs ?w a)) c2 ?w) = Inr ()"
      by (simp add: uploadFile_put_ok [OF put ok] never)
    then have "fst (saveCorrection P net (rootPath_of olc) f now a c2 w2) = Inr (NextResponse SuccessJson 200)"
      by (auto simp: saveCorrection_def Let_def split: prod.splits sum.splits)
    then show ?thesis
      by (auto simp: POST_loaded [OF v l] split: prod.splits sum.splits)
  qed
  from never a b u p show ?thesis
    by blast
qed

theorem upload_succeeds_whatever_the_refresh_does_witness:
  "validate ex_request ex_config = Continue (ex_fields, ex_olc)
   \<and> cache ex_world_cached (rootPath_of ex_olc) = Some 0
   \<and> ok \<lparr>status = 200, text_of = ''{\"code\":200}''\<rparr>
   \<and> fst (fetchWithRetry ex_platform ex_net_list_down ''http://h/api/fs/put''
        (put_options ex_platform ex_client ''/media/metainfo.json''
           ''{\"folders\":{\"Movie\":{\"tmdb_id\":603}}}'')
        False ex_client (set_folder ex_platform 0 (JStr ''Movie'') (folderEntry ex_fields 1000) ex_world_cached))
       = Inr \<lparr>status = 200, text_of = ''{\"code\":200}''\<rparr>
   \<and> fst (POST ex_platform ex_net_list_down ex_config 1000 ex_request ex_world_cached)
       = NextResponse SuccessJson 200
   \<and> console (snd (POST ex_platform ex_net_list_down ex_config 1000 ex_request ex_world_cached))
       = [Log_refresh_attempt, Log_refresh_done, Warn_refresh_error NetworkError]"
proof -
  let ?w = "set_folder ex_platform 0 (folder ex_fields) (folderEntry ex_fields 1000) ex_world_cached"
  let ?F = "fetchWithRetry ex_platform ex_net_list_down (baseURL (new_client ex_olc) @ ''/api/fs/put'')
        (put_options ex_platform (new_client ex_olc) (metainfoPath (rootPath_of ex_olc))
           (JSON_stringify ex_platform (docs ?w 0)))
        False (new_client ex_olc) ?w"
  have v: "validate ex_request ex_config = Continue (ex_fields, ex_olc)"
    by (simp add: ex_defs handler_defs client_defs)
  have l: "cache ex_world_cached (rootPath_of ex_olc) = Some 0 \<and> new_client ex_olc = new_client ex_olc
      \<and> ex_world_cached = ex_world_cached
    \<or> cache ex_world_cached (rootPath_of ex_olc) = None \<and>
       readMetaInfo_try ex_platform ex_net_list_down (rootPath_of ex_olc) (new_client ex_olc) ex_world_cached
         = (Inr (Loaded 0), new_client ex_olc, ex_world_cached)"
    by (simp add: ex_defs handler_defs)
  have f: "fst ?F = Inr \<lparr>status = 200, text_of = ''{\"code\":200}''\<rparr>"
    by (simp add: fetchWithRetry.simps ex_defs handler_defs client_defs)
  then have put: "?F = (Inr \<lparr>status = 200, text_of = ''{\"code\":200}''\<rparr>, fst (snd ?F), snd (snd ?F))"
    by (simp add: prod_eq_iff)
  have ok: "ok \<lparr>status = 200, text_of = ''{\"code\":200}''\<rparr>"
    by (simp add: ok_def)
  from upload_succeeds_whatever_the_refresh_does
    [of ex_platform ex_net_list_down _ _ _ _ _ _ _ _ _ ex_request ex_config ex_fields ex_olc
        ex_world_cached 0 "new_client ex_olc" ex_world_cached 1000]
    v l put ok
  have "fst (POST ex_platform ex_net_list_down ex_config 1000 ex_request ex_world_cached)
       = NextResponse SuccessJson 200"
    by blast
  moreover have "console (snd (POST ex_platform ex_net_list_down ex_config 1000 ex_request ex_world_cached))
       = [Log_refresh_attempt, Log_refresh_done, Warn_refresh_error NetworkError]"
    by (simp add: fetchWithRetry.simps ex_defs handler_defs client_defs)
  ultimately show ?thesis
    using v ok f by (simp add: ex_defs handler_defs client_defs)
qed


section \<open>Reading the document\<close>

lemma POST_cache_miss:
  assumes "validate request config = Continue (f, olc)" and "cache w (rootPath_of olc) = None"
  shows "readMetaInfo_try P net (rootPath_of olc) (new_client olc) w = (Inl e, c1, w1) \<Longrightarrow>
      POST P net config now request w =
        (NextResponse (ErrorJson ReadFailed) 500, log_line (Error_read_metainfo e) w1)"
    and "readMetaInfo_try P net (rootPath_of olc) (new_client olc) w = (Inr Absent, c1, w1) \<Longrightarrow>
      POST P net config now request w = (NextResponse (ErrorJson NotFound) 404, w1)"
  using assms by (simp_all add: POST_validated correct_def getCachedMetaInfo_def)

text \<open>
  A text that parses to a truthy value that is no document, such as \<^verbatim>\<open>{}\<close>: the read
  succeeds, line 98 throws, and the outer \<^verbatim>\<open>catch\<close> answers.
\<close>

lemma POST_unusable_document:
  assumes "validate request config = Continue (f, olc)" and "cache w (rootPath_of olc) = None"
    and "readMetaInfo_try P net (rootPath_of olc) (new_client olc) w = (Inr Unusable, c1, w1)"
  shows "POST P net config now request w =
     (NextResponse (ErrorDetailsJson CorrectFailed TypeError) 500, log_line (Error_correct TypeError) w1)"
  using assms by (simp add: POST_validated correct_def getCachedMetaInfo_def)

lemma raw_url_of_no_file:
  assumes "get_prop fr ''code'' = Inr code"
    and "code \<noteq> JNum 200 \<or> (get_prop fr ''data'' = Inr d \<and> get_prop d ''raw_url'' = Inr u \<and> \<not> truthy u)"
  shows "raw_url_of fr = Inr None"
  using assms by (auto simp: raw_url_of_def)

text \<open>
  C6. On a cache miss the handler tells two failures apart. Every error thrown while
  the document is read gives the 500 response for a failed read: \<open>getFile\<close> throwing, the
  download being rejected or answered with an error status, the text not parsing. A
  \<open>getFile\<close> that returns, but with a code other than 200 or with no \<open>raw_url\<close>, leaves
  the document absent and gives the 404 response. The two responses differ.
\<close>

theorem read_failure_and_absence_are_told_apart:
  assumes "validate request config = Continue (f, olc)" and "cache w (rootPath_of olc) = None"
  shows
    "(readMetaInfo_try P net (rootPath_of olc) (new_client olc) w = (Inl e, c1, w1) \<longrightarrow>
        POST P net config now request w =
          (NextResponse (ErrorJson ReadFailed) 500, log_line (Error_read_metainfo e) w1))
     \<and> (getFile P net (metainfoPath (rootPath_of olc)) (new_client olc) w = (Inl e, c1, w1) \<longrightarrow>
        fst (POST P net config now request w) = NextResponse (ErrorJson ReadFailed) 500)
     \<and> (getFile P net (metainfoPath (rootPath_of olc)) (new_client olc) w = (Inr fr, c1, w1)
          \<and> raw_url_of fr = Inr (Some u)
          \<and> (net (trace w1) (to_string P u, download_options) = Rejected
             \<or> (\<exists>r. net (trace w1) (to_string P u, download_options) = Response r
                  \<and> (\<not> ok r \<or> JSON_parse_MetaInfo P (text_of r) = None))) \<longrightarrow>
        fst (POST P net config now request w) = NextResponse (ErrorJson ReadFailed) 500)
     \<and> (getFile P net (metainfoPath (rootPath_of olc)) (new_client olc) w = (Inr fr, c1, w1)
          \<and> get_prop fr ''code'' = Inr code
          \<and> (code \<noteq> JNum 200
             \<or> (get_prop fr ''data'' = Inr d \<and> get_prop d ''raw_url'' = Inr v \<and> \<not> truthy v)) \<longrightarrow>
        POST P net config now request w = (NextResponse (ErrorJson NotFound) 404, w1))
     \<and> NextResponse (ErrorJson ReadFailed) 500 \<noteq> NextResponse (ErrorJson NotFound) 404"
proof -
  note miss = POST_cache_miss [OF assms]
  have a: "readMetaInfo_try P net (rootPath_of olc) (new_client olc) w = (Inl e, c1, w1) \<longrightarrow>
        POST P net config now request w =
          (NextResponse (ErrorJson ReadFailed) 500, log_line (Error_read_metainfo e) w1)"
    using miss(1) by blast
  have b: "fst (POST P net config now request w) = NextResponse (ErrorJson ReadFailed) 500"
    if "getFile P net (metainfoPath (rootPath_of olc)) (new_client olc) w = (Inl e, c1, w1)"
  proof -
    from that have "readMetaInfo_try P net (rootPath_of olc) (new_client olc) w = (Inl e, c1, w1)"
      by (simp add: readMetaInfo_try_def)
    then show ?thesis
      by (simp add: miss(1))
  qed
  have c: "fst (POST P net config now request w) = NextResponse (ErrorJson ReadFailed) 500"
    if g: "getFile P net (metainfoPath (rootPath_of olc)) (new_client olc) w = (Inr fr, c1, w1)"
      and u: "raw_url_of fr = Inr (Some u)"
      and n: "net (trace w1) (to_string P u, download_options) = Rejected
             \<or> (\<exists>r. net (trace w1) (to_string P u, download_options) = Response r
                  \<and> (\<not> ok r \<or> JSON_parse_MetaInfo P (text_of r) = None))"
  proof -
    from g u n have "\<exists>e' w2. readMetaInfo_try P net (rootPath_of olc) (new_client olc) w = (Inl e', c1, w2)"
      by (auto simp: readMetaInfo_try_def fetch_def)
    then show ?thesis
      by (auto simp: miss(1))
  qed
  have d: "POST P net config now request w = (NextResponse (ErrorJson NotFound) 404, w1)"
    if g: "getFile P net (metainfoPath (rootPath_of olc)) (new_client olc) w = (Inr fr, c1, w1)"
      and k: "get_prop fr ''code'' = Inr code"
      and n: "code \<noteq> JNum 200
             \<or> (get_prop fr ''data'' = Inr d \<and> get_prop d ''raw_url'' = Inr v \<and> \<not> truthy v)"
  proof -
    from g raw_url_of_no_file [OF k n]
    have "readMetaInfo_try P net (rootPath_of olc) (new_client olc) w = (Inr Absent, c1, w1)"
      by (simp add: readMetaInfo_try_def)
    then show ?thesis
      by (rule miss(2))
  qed
  from a b c d show ?thesis
    by blast
qed



theorem read_failure_and_absence_are_told_apart_witness:
  "validate ex_request ex_config = Continue (ex_fields, ex_olc)
   \<and> cache ex_world (rootPath_of ex_olc) = None
   \<and> fst (getFile ex_platform ex_net_no_file (metainfoPath (rootPath_of ex_olc)) (new_client ex_olc) ex_world)
       = Inr (JObj [(''code'', JNum 500), (''message'', JStr ''object not found'')])
   \<and> JNum 500 \<noteq> JNum 200
   \<and> fst (POST ex_platform ex_net_no_file ex_config 1000 ex_request ex_world)
       = NextResponse (ErrorJson NotFound) 404
   \<and> fst (getFile ex_platform ex_net_401 (metainfoPath (rootPath_of ex_olc)) (new_client ex_olc) ex_world)
       = Inl (ApiStatus 401)
   \<and> fst (POST ex_platform ex_net_401 ex_config 1000 ex_request ex_world)
       = NextResponse (ErrorJson ReadFailed) 500
   \<and> fst (getFile ex_platform ex_net_cdn_down (metainfoPath (rootPath_of ex_olc)) (new_client ex_olc) ex_world)
       = Inr (JObj [(''code'', JNum 200), (''data'', JObj [(''raw_url'', JStr ''http://cdn/metainfo.json'')])])
   \<and> fst (POST ex_platform ex_net_cdn_down ex_config 1000 ex_request ex_world)
       = NextResponse (ErrorJson ReadFailed) 500"
proof -
  let ?ok = "JObj [(''code'', JNum 200), (''data'', JObj [(''raw_url'', JStr ''http://cdn/metainfo.json'')])]"
  let ?D = "getFile ex_platform ex_net_cdn_down (metainfoPath (rootPath_of ex_olc)) (new_client ex_olc) ex_world"
  have dg: "fst ?D = Inr ?ok"
    by (simp add: fetchWithRetry.simps ex_defs handler_defs client_defs)
  then have dg': "?D = (Inr ?ok, fst (snd ?D), snd (snd ?D))"
    by (simp add: prod_eq_iff)
  have du: "raw_url_of ?ok = Inr (Some (JStr ''http://cdn/metainfo.json''))"
    by (simp add: raw_url_of_def)
  have dn: "ex_net_cdn_down (trace (snd (snd ?D)))
      (to_string ex_platform (JStr ''http://cdn/metainfo.json''), download_options) = Rejected
    \<or> (\<exists>r. ex_net_cdn_down (trace (snd (snd ?D)))
           (to_string ex_platform (JStr ''http://cdn/metainfo.json''), download_options) = Response r
         \<and> (\<not> ok r \<or> JSON_parse_MetaInfo ex_platform (text_of r) = None))"
    by (simp add: ex_net_cdn_down_def ex_net_with_def to_string_def)
  let ?fr = "JObj [(''code'', JNum 500), (''message'', JStr ''object not found'')]"
  let ?G = "getFile ex_platform ex_net_no_file (metainfoPath (rootPath_of ex_olc)) (new_client ex_olc) ex_world"
  let ?H = "getFile ex_platform ex_net_401 (metainfoPath (rootPath_of ex_olc)) (new_client ex_olc) ex_world"
  have v: "validate ex_request ex_config = Continue (ex_fields, ex_olc)"
    by (simp add: ex_defs handler_defs client_defs)
  have m: "cache ex_world (rootPath_of ex_olc) = None"
    by (simp add: ex_world_def)
  have g: "fst ?G = Inr ?fr"
    by (simp add: fetchWithRetry.simps ex_defs handler_defs client_defs)
  then have g': "?G = (Inr ?fr, fst (snd ?G), snd (snd ?G))"
    by (simp add: prod_eq_iff)
  have k: "get_prop ?fr ''code'' = Inr (JNum 500)"
    by simp
  have h: "fst ?H = Inl (ApiStatus 401)"
    by (simp add: fetchWithRetry.simps ex_defs handler_defs client_defs)
  then have h': "?H = (Inl (ApiStatus 401), fst (snd ?H), snd (snd ?H))"
    by (simp add: prod_eq_iff)
  have n: "JNum 500 \<noteq> JNum 200 \<or>
      (get_prop ?fr ''data'' = Inr JUndefined \<and> get_prop JUndefined ''raw_url'' = Inr JUndefined
       \<and> \<not> truthy JUndefined)"
    by simp
  from read_failure_and_absence_are_told_apart
    [OF v m, where P = ex_platform and net = ex_net_no_file and fr = "?fr" and ?c1.0 = "fst (snd ?G)"
       and ?w1.0 = "snd (snd ?G)" and code = "JNum 500" and d = JUndefined and v = JUndefined
       and now = 1000]
    g' k n
  have "fst (POST ex_platform ex_net_no_file ex_config 1000 ex_request ex_world)
       = NextResponse (ErrorJson NotFound) 404"
    by simp
  moreover from read_failure_and_absence_are_told_apart
    [OF v m, where P = ex_platform and net = ex_net_401 and e = "ApiStatus 401"
       and ?c1.0 = "fst (snd ?H)" and ?w1.0 = "snd (snd ?H)" and now = 1000]
    h'
  have "fst (POST ex_platform ex_net_401 ex_config 1000 ex_request ex_world)
       = NextResponse (ErrorJson ReadFailed) 500"
    by simp
  moreover from read_failure_and_absence_are_told_apart
    [OF v m, where P = ex_platform and net = ex_net_cdn_down and fr = "?ok"
       and ?c1.0 = "fst (snd ?D)" and ?w1.0 = "snd (snd ?D)"
       and u = "JStr ''http://cdn/metainfo.json''" and now = 1000]
    dg' du dn
  have "fst (POST ex_platform ex_net_cdn_down ex_config 1000 ex_request ex_world)
       = NextResponse (ErrorJson ReadFailed) 500"
    by simp
  ultimately show ?thesis
    using v m g h dg by simp
qed


section \<open>The time stamp\<close>

lemma POST_success_stamp:
  assumes "validate request config = Continue (f, olc)"
    and "POST P net config now request w = (NextResponse SuccessJson 200, w')"
    and "to_string P (folder f) \<noteq> ''__proto__''"
  shows "last_updated_of w' (rootPath_of olc) (to_string P (folder f)) = JNum (of_int now)"
  using POST_success_entry [OF assms]
  by (auto simp: last_updated_of_def folderEntry_def get_prop_opt_def)

text \<open>
  C9 (as amended). The \<open>last_updated\<close> that a successful correction writes is the time it
  read. Of two successive successful corrections of one folder under one root, the later
  one therefore writes a strictly greater value exactly when it read a strictly greater
  time. This is for every folder name but \<open>__proto__\<close>, for which line 98 may store no
  entry at all.
\<close>

theorem later_stamp_follows_the_clock:
  assumes "validate request1 config1 = Continue (f1, olc1)"
    and "POST P net config1 now1 request1 w0 = (NextResponse SuccessJson 200, w1)"
    and "validate request2 config2 = Continue (f2, olc2)"
    and "POST P net config2 now2 request2 w1 = (NextResponse SuccessJson 200, w2)"
    and "rootPath_of olc1 = rootPath" and "rootPath_of olc2 = rootPath"
    and "to_string P (folder f1) = k" and "to_string P (folder f2) = k"
    and "k \<noteq> ''__proto__''"
  shows "last_updated_of w1 rootPath k = JNum (of_int now1)
     \<and> last_updated_of w2 rootPath k = JNum (of_int now2)
     \<and> js_less (last_updated_of w1 rootPath k) (last_updated_of w2 rootPath k) = (now1 < now2)"
proof -
  have "last_updated_of w1 (rootPath_of olc1) (to_string P (folder f1)) = JNum (of_int now1)"
    using assms(7,9) by (intro POST_success_stamp [OF assms(1,2)]) simp
  moreover have "last_updated_of w2 (rootPath_of olc2) (to_string P (folder f2)) = JNum (of_int now2)"
    using assms(8,9) by (intro POST_success_stamp [OF assms(3,4)]) simp
  ultimately show ?thesis
    using assms(5-8) by (simp add: js_less_def)
qed

theorem later_stamp_follows_the_clock_witness:
  "validate ex_request ex_config = Continue (ex_fields, ex_olc)
   \<and> to_string ex_platform (folder ex_fields) = ''Movie'' \<and> ''Movie'' \<noteq> ''__proto__''
   \<and> fst (POST ex_platform ex_net ex_config 1000 ex_request ex_world_cached) = NextResponse SuccessJson 200
   \<and> fst (POST ex_platform ex_net ex_config 1001 ex_request
            (snd (POST ex_platform ex_net ex_config 1000 ex_request ex_world_cached)))
       = NextResponse SuccessJson 200
   \<and> last_updated_of (snd (POST ex_platform ex_net ex_config 1000 ex_request ex_world_cached))
        ''/media'' ''Movie'' = JNum 1000
   \<and> last_updated_of (snd (POST ex_platform ex_net ex_config 1001 ex_request
                              (snd (POST ex_platform ex_net ex_config 1000 ex_request ex_world_cached))))
        ''/media'' ''Movie'' = JNum 1001
   \<and> js_less
        (last_updated_of (snd (POST ex_platform ex_net ex_config 1000 ex_request ex_world_cached))
           ''/media'' ''Movie'')
        (last_updated_of (snd (POST ex_platform ex_net ex_config 1001 ex_request
                                 (snd (POST ex_platform ex_net ex_config 1000 ex_request ex_world_cached))))
           ''/media'' ''Movie'')"
proof -
  let ?X = "POST ex_platform ex_net ex_config 1000 ex_request ex_world_cached"
  let ?Y = "POST ex_platform ex_net ex_config 1001 ex_request (snd ?X)"
  have v: "validate ex_request ex_config = Continue (ex_fields, ex_olc)"
    by (simp add: ex_defs handler_defs client_defs)
  have x: "fst ?X = NextResponse SuccessJson 200"
    by (simp add: fetchWithRetry.simps ex_defs handler_defs client_defs)
  then have x': "?X = (NextResponse SuccessJson 200, snd ?X)"
    by (simp add: prod_eq_iff)
  have y: "fst ?Y = NextResponse SuccessJson 200"
    by (simp add: fetchWithRetry.simps ex_defs handler_defs client_defs)
  then have y': "?Y = (NextResponse SuccessJson 200, snd ?Y)"
    by (simp add: prod_eq_iff)
  have r: "rootPath_of ex_olc = ''/media''" "to_string ex_platform (folder ex_fields) = ''Movie''"
    by (simp_all add: ex_olc_def ex_fields_def rootPath_of_def str_or_def to_string_def)
  have lt: "(1000::int) < 1001"
    by simp
  have k: "''Movie'' \<noteq> ''__proto__''"
    by simp
  from later_stamp_follows_the_clock [OF v x' v y' r(1) r(1) r(2) r(2) k] lt v x y r(2) show ?thesis
    by (simp add: js_less_def)
qed


text \<open>
  C9 as stated fails when the clock does not advance between two corrections: both read
  the same millisecond, both succeed, and the second writes the value the first wrote.
\<close>

theorem same_clock_reading_counterexample:
  "fst (POST ex_platform ex_net ex_config 1000 ex_request ex_world_cached) = NextResponse SuccessJson 200
   \<and> fst (POST ex_platform ex_net ex_config 1000 ex_request
            (snd (POST ex_platform ex_net ex_config 1000 ex_request ex_world_cached)))
       = NextResponse SuccessJson 200
   \<and> last_updated_of (snd (POST ex_platform ex_net ex_config 1000 ex_request ex_world_cached))
        ''/media'' ''Movie'' = JNum 1000
   \<and> last_updated_of (snd (POST ex_platform ex_net ex_config 1000 ex_request
                              (snd (POST ex_platform ex_net ex_config 1000 ex_request ex_world_cached))))
        ''/media'' ''Movie'' = JNum 1000
   \<and> \<not> js_less
        (last_updated_of (snd (POST ex_platform ex_net ex_config 1000 ex_request ex_world_cached))
           ''/media'' ''Movie'')
        (last_updated_of (snd (POST ex_platform ex_net ex_config 1000 ex_request
                                 (snd (POST ex_platform ex_net ex_config 1000 ex_request ex_world_cached))))
           ''/media'' ''Movie'')"
proof -
  let ?X = "POST ex_platform ex_net ex_config 1000 ex_request ex_world_cached"
  let ?Y = "POST ex_platform ex_net ex_config 1000 ex_request (snd ?X)"
  have x: "fst ?X = NextResponse SuccessJson 200"
    by (simp add: fetchWithRetry.simps ex_defs handler_defs client_defs)
  have y: "fst ?Y = NextResponse SuccessJson 200"
    by (simp add: fetchWithRetry.simps ex_defs handler_defs client_defs)
  have sx: "last_updated_of (snd ?X) ''/media'' ''Movie'' = JNum 1000"
    by (simp add: fetchWithRetry.simps ex_defs handler_defs client_defs last_updated_of_def)
  have sy: "last_updated_of (snd ?Y) ''/media'' ''Movie'' = JNum 1000"
    by (simp add: fetchWithRetry.simps ex_defs handler_defs client_defs last_updated_of_def)
  from x y sx sy show ?thesis
    by (simp add: js_less_def)
qed

section \<open>A failed upload\<close>

lemma getFile_effect:
  assumes "getFile P net path c w = (res, c', w')"
  shows "same_store w w'"
proof -
  obtain r1 c1 w1 where fr: "fetchWithRetry P net (baseURL c @ ''/api/fs/get'') (get_options c path) False c w
      = (r1, c1, w1)"
    by (metis prod_cases3)
  from assms fr have "w' = w1"
    by (auto simp: getFile_def split: sum.splits if_splits option.splits)
  with fetchWithRetry_effect [OF fr] show ?thesis
    by simp
qed

lemma readMetaInfo_try_effect:
  assumes "readMetaInfo_try P net rootPath c w = (res, c1, w1)"
  shows "cache w1 = cache w \<and> (\<forall>a. a < next_ref w \<longrightarrow> docs w1 a = docs w a) \<and>
     (case res of
        Inr (Loaded a) \<Rightarrow> a = next_ref w \<and> next_ref w1 = Suc a
      | _ \<Rightarrow> docs w1 = docs w \<and> next_ref w1 = next_ref w)"
proof -
  obtain r0 c0 w0 where g: "getFile P net (metainfoPath rootPath) c w = (r0, c0, w0)"
    by (metis prod_cases3)
  from getFile_effect [OF g] have s: "docs w0 = docs w" "next_ref w0 = next_ref w" "cache w0 = cache w"
    by (simp_all add: same_store_def)
  from assms g s show ?thesis
    by (auto simp: readMetaInfo_try_def fetch_def alloc_def
        split: sum.splits option.splits fetch_outcome.splits if_splits parsed.splits)
qed

text \<open>
  On a cache miss the document that is corrected is a new object, which the cache does
  not hold: when the upload fails, the cache and every document it holds are as before.
\<close>

lemma failed_correction_on_miss_keeps_cache:
  assumes v: "validate request config = Continue (f, olc)"
    and miss: "cache w (rootPath_of olc) = None"
    and run: "POST P net config now request w = (resp, w')"
    and failed: "resp \<noteq> NextResponse SuccessJson 200"
    and allocated: "\<forall>r a. cache w r = Some a \<longrightarrow> a < next_ref w"
  shows "cache w' = cache w \<and> (\<forall>r a. cache w r = Some a \<longrightarrow> docs w' a = docs w a)"
proof -
  obtain res c1 w1 where rd: "readMetaInfo_try P net (rootPath_of olc) (new_client olc) w = (res, c1, w1)"
    by (metis prod_cases3)
  note eff = readMetaInfo_try_effect [OF rd]
  show ?thesis
  proof (cases "\<exists>a. res = Inr (Loaded a)")
    case False
    with run rd miss have "cache w' = cache w1 \<and> docs w' = docs w1"
      by (auto simp: POST_validated [OF v] correct_def getCachedMetaInfo_def log_line_def
          split: sum.splits loaded.splits)
    with eff False show ?thesis
      by (auto split: sum.splits loaded.splits)
  next
    case True
    then obtain a where a: "res = Inr (Loaded a)"
      by blast
    with eff have fresh: "a = next_ref w" and c: "cache w1 = cache w"
      and d: "\<forall>b. b < next_ref w \<longrightarrow> docs w1 b = docs w b"
      by auto
    obtain r2 w2 where sv: "saveCorrection P net (rootPath_of olc) f now a c1 w1 = (r2, w2)"
      by (metis prod.exhaust)
    have l: "cache w (rootPath_of olc) = Some a \<and> c1 = new_client olc \<and> w1 = w
       \<or> cache w (rootPath_of olc) = None \<and>
         readMetaInfo_try P net (rootPath_of olc) (new_client olc) w = (Inr (Loaded a), c1, w1)"
      using miss rd a by simp
    from run sv failed obtain e where e: "r2 = Inl e" and w': "cache w' = cache w2" "docs w' = docs w2"
      using saveCorrection_effect [OF sv]
      by (auto simp: POST_loaded [OF v l] log_line_def split: sum.splits)
    from saveCorrection_effect [OF sv] e have
      "cache w2 = cache w1" "docs w2 = docs (set_folder P a (folder f) (folderEntry f now) w1)"
      by auto
    with w' c d fresh allocated show ?thesis
      by (auto simp: set_folder_def)
  qed
qed

text \<open>
  C2 fails on a cache hit. The document is cached for the root and the upload is
  answered with status 500: the handler answers 500, the cache still holds the same
  document object, and that object now carries the new entry for the folder in place of
  the one it had.
\<close>

theorem failed_upload_changes_cached_document:
  "cache ex_world_cached ''/media'' = Some 0
   \<and> folders (docs ex_world_cached 0) ''Movie''
       = Some (JObj [(''tmdb_id'', JNum 604), (''overview'', JStr ''a sequel''), (''failed'', JBool True)])
   \<and> fst (POST ex_platform ex_net_put_fails ex_config 1000 ex_request ex_world_cached)
       = NextResponse (ErrorDetailsJson CorrectFailed (UploadStatus 500 ''storage is read-only'')) 500
   \<and> cache (snd (POST ex_platform ex_net_put_fails ex_config 1000 ex_request ex_world_cached)) ''/media''
       = Some 0
   \<and> folders (docs (snd (POST ex_platform ex_net_put_fails ex_config 1000 ex_request ex_world_cached)) 0)
        ''Movie''
       = Some (JObj [(''tmdb_id'', JNum 603),
                     (''title'', JStr ''The Matrix''),
                     (''poster_path'', JUndefined),
                     (''release_date'', JStr []),
                     (''overview'', JStr []),
                     (''vote_average'', JNum 0),
                     (''media_type'', JStr ''movie''),
                     (''last_updated'', JNum 1000),
                     (''failed'', JBool False)])"
  by (simp add: fetchWithRetry.simps ex_defs handler_defs client_defs)

end
